theory Spec2Isabelle
  imports Complex_Main
begin

section \<open>Fixed-wing nonlinear guidance system\<close>

text \<open>
  A shallow embedding of the class \<open>FW_NL_GuidanceSystem\<close>. The object is a record that
  every method takes and returns; Python floats are read as real numbers, so rounding,
  overflow, infinities and a quotient with divisor zero are outside the model. The one
  float that is no number and that the source itself tests for, \<open>np.nan\<close> in the
  commanded trajectory, is kept: a commanded value and an error term derived from it is a
  \<open>pyfloat\<close>, a number or a NaN.
\<close>

subsection \<open>The integrator\<close>

text \<open>
  An ODE right-hand side takes the time and the state vector and returns the derivative
  vector. A solver takes the right-hand side, both ends of the time span and the initial
  vector, and returns the state vector at the end of the span (the last column of
  \<open>sol.y\<close>).
\<close>

type_synonym ode = "real \<Rightarrow> real list \<Rightarrow> real list"

type_synonym solver = "ode \<Rightarrow> real \<Rightarrow> real \<Rightarrow> real list \<Rightarrow> real list"

text \<open>
  Modelled from the spec: the solver \<open>solve_ivp(..., method='RK45')\<close> is a library
  routine whose code is not part of the repository; the spec calls it an adaptive explicit
  Runge-Kutta method of order 4/5. One step is the Dormand-Prince step with its six
  stages; the step sizes an adaptive controller picks are a parameter \<open>ctrl\<close>.
\<close>

definition rk_stage :: "real list \<Rightarrow> real \<Rightarrow> real list \<Rightarrow> real list list \<Rightarrow> real list" where
  "rk_stage y h as ks =
     map (\<lambda>i. y ! i + h * (\<Sum>(a, k) \<leftarrow> zip as ks. a * k ! i)) [0..<length y]"

definition rk45_step :: "ode \<Rightarrow> real \<Rightarrow> real list \<Rightarrow> real \<Rightarrow> real list" where
  "rk45_step f t y h =
     (let k1 = f t y;
          k2 = f (t + 1/5 * h) (rk_stage y h [1/5] [k1]);
          k3 = f (t + 3/10 * h) (rk_stage y h [3/40, 9/40] [k1, k2]);
          k4 = f (t + 4/5 * h) (rk_stage y h [44/45, - 56/15, 32/9] [k1, k2, k3]);
          k5 = f (t + 8/9 * h)
                 (rk_stage y h [19372/6561, - 25360/2187, 64448/6561, - 212/729]
                    [k1, k2, k3, k4]);
          k6 = f (t + h)
                 (rk_stage y h [9017/3168, - 355/33, 46732/5247, 49/176, - 5103/18656]
                    [k1, k2, k3, k4, k5])
      in rk_stage y h [35/384, 0, 500/1113, 125/192, - 2187/6784, 11/84]
           [k1, k2, k3, k4, k5, k6])"

fun rk45_run :: "ode \<Rightarrow> real \<Rightarrow> real list \<Rightarrow> real list \<Rightarrow> real list" where
  "rk45_run f t y [] = y"
| "rk45_run f t y (h # hs) = rk45_run f (t + h) (rk45_step f t y h) hs"

definition rk45_solve :: "(ode \<Rightarrow> real \<Rightarrow> real \<Rightarrow> real list \<Rightarrow> real list) \<Rightarrow> solver" where
  "rk45_solve ctrl f t0 t1 y0 = rk45_run f t0 y0 (ctrl f t0 t1 y0)"

text \<open>A controller covers the span when its step sizes add up to the length of the span.\<close>

definition covers :: "(ode \<Rightarrow> real \<Rightarrow> real \<Rightarrow> real list \<Rightarrow> real list) \<Rightarrow> bool" where
  "covers ctrl = (\<forall>f t0 t1 y0. sum_list (ctrl f t0 t1 y0) = t1 - t0)"

text \<open>The controller that crosses the span in a single step.\<close>

definition one_step :: "ode \<Rightarrow> real \<Rightarrow> real \<Rightarrow> real list \<Rightarrow> real list" where
  "one_step f t0 t1 y0 = [t1 - t0]"

text \<open>
  What the mass update needs of a solver: on a right-hand side that is the same vector
  \<open>c\<close> everywhere, the end value is the straight-line extrapolation.
\<close>

definition exact_on_constant :: "solver \<Rightarrow> bool" where
  "exact_on_constant solve =
     (\<forall>c t0 t1 y0. length c = length y0 \<longrightarrow>
        solve (\<lambda>t y. c) t0 t1 y0 = map2 (\<lambda>y d. y + (t1 - t0) * d) y0 c)"

subsection \<open>Collaborators: utils and the vehicle\<close>

text \<open>
  The module \<open>utils\<close> and the class \<open>FixedWingVehicle\<close> are imported by the source and
  not part of it: the constants and \<open>wind_vector\<close> it reads from \<open>utils\<close>, and the
  solver, are the fields of an environment; the vehicle is a record of the attributes the
  source reads.
\<close>

record env =
  const_gravity :: real
  const_density :: real
  Re_bar :: real
  wind_vector :: "real \<Rightarrow> real \<Rightarrow> real \<Rightarrow> real"
  solve_ivp :: solver

record vehicle =
  weight_max :: real
  weight_min :: real
  speed_max :: real
  speed_min :: real
  Kf :: real
  omega_T :: real
  omega_L :: real
  omega_mu :: real
  T_max :: real
  K_Lmax :: real
  mu_max :: real
  C_Do :: real
  C_Lalpha :: real
  alpha_o :: real
  wing_area :: real
  aspect_ratio :: real
  wing_eff :: real
  veh_units :: string
  veh_angles :: string

subsection \<open>Floats that may be NaN\<close>

text \<open>
  A commanded value is a number, the object \<open>np.nan\<close> itself, or another NaN (such as
  \<open>float('nan')\<close> or the result of arithmetic on a NaN). The source's test
  \<open>np.nan in [...]\<close> finds only the first: list membership compares by identity before
  equality, and a NaN equals nothing. Arithmetic on either NaN gives a NaN that is not the
  object \<open>np.nan\<close>. \<open>num\<close> reads a value that is a number; of a NaN it is unspecified.
\<close>

datatype pyfloat = is_Num: Num (num: real) | Np_nan | Other_nan

definition lift1 :: "(real \<Rightarrow> real) \<Rightarrow> pyfloat \<Rightarrow> pyfloat" where
  "lift1 f a = (case a of Num x \<Rightarrow> Num (f x) | Np_nan \<Rightarrow> Other_nan | Other_nan \<Rightarrow> Other_nan)"

definition lift2 :: "(real \<Rightarrow> real \<Rightarrow> real) \<Rightarrow> pyfloat \<Rightarrow> pyfloat \<Rightarrow> pyfloat" where
  "lift2 f a b =
     (case a of
        Num x \<Rightarrow> (case b of Num y \<Rightarrow> Num (f x y) | Np_nan \<Rightarrow> Other_nan | Other_nan \<Rightarrow> Other_nan)
      | Np_nan \<Rightarrow> Other_nan
      | Other_nan \<Rightarrow> Other_nan)"

definition lift3 :: "(real \<Rightarrow> real \<Rightarrow> real \<Rightarrow> real) \<Rightarrow> pyfloat \<Rightarrow> pyfloat \<Rightarrow> pyfloat \<Rightarrow> pyfloat" where
  "lift3 f a b c =
     (case a of
        Num x \<Rightarrow>
          (case b of
             Num y \<Rightarrow> (case c of Num z \<Rightarrow> Num (f x y z) | Np_nan \<Rightarrow> Other_nan | Other_nan \<Rightarrow> Other_nan)
           | Np_nan \<Rightarrow> Other_nan
           | Other_nan \<Rightarrow> Other_nan)
      | Np_nan \<Rightarrow> Other_nan
      | Other_nan \<Rightarrow> Other_nan)"

subsection \<open>The commanded trajectory (class userCommand)\<close>

text \<open>
  The commanded airspeed is \<open>wind_vector\<close> of the three commanded values; as arithmetic
  does, it gives NaN when one of them is NaN.
\<close>

record userCommand =
  cmd_v_BN_W :: pyfloat
  cmd_gamma :: pyfloat
  cmd_sigma :: pyfloat
  v_BN_W_history :: "pyfloat list"
  gamma_history :: "pyfloat list"
  sigma_history :: "pyfloat list"
  cmd_airspeed :: pyfloat
  airspeed_history :: "pyfloat list"

definition userCommand_init :: "env \<Rightarrow> pyfloat \<Rightarrow> pyfloat \<Rightarrow> pyfloat \<Rightarrow> userCommand" where
  "userCommand_init E v g sg =
     \<lparr>cmd_v_BN_W = v, cmd_gamma = g, cmd_sigma = sg,
      v_BN_W_history = [v], gamma_history = [g], sigma_history = [sg],
      cmd_airspeed = lift3 (wind_vector E) v g sg,
      airspeed_history = [lift3 (wind_vector E) v g sg]\<rparr>"

definition save_history :: "userCommand \<Rightarrow> userCommand" where
  "save_history c =
     c\<lparr>v_BN_W_history := v_BN_W_history c @ [cmd_v_BN_W c],
       gamma_history := gamma_history c @ [cmd_gamma c],
       sigma_history := sigma_history c @ [cmd_sigma c],
       airspeed_history := airspeed_history c @ [cmd_airspeed c]\<rparr>"

subsection \<open>The guidance system object\<close>

text \<open>The messages the source prints, in the order printed.\<close>

datatype diag =
    NoTrajectoryCommand
  | ThrustExceeds real real
  | LiftExceeds real real
  | BankExceeds real real

record TF_constants =
  tf_K_Tp :: real
  tf_K_Ti :: real
  tf_K_Lp :: real
  tf_K_Li :: real
  tf_K_mu_p :: real

record InitialConditions =
  ic_v_BN_W :: real
  ic_h :: real
  ic_gamma :: real
  ic_sigma :: real
  ic_lat :: real
  ic_lon :: real
  ic_v_WN_N :: "real list"
  ic_weight :: real

record guidance =
  Vehicle :: vehicle
  K_Tp :: real
  K_Ti :: real
  K_Lp :: real
  K_Li :: real
  K_mu_p :: real
  dt :: real
  time :: "real list"
  v_BN_W :: "real list"
  h :: "real list"
  gamma :: "real list"
  sigma :: "real list"
  lat :: "real list"
  lon :: "real list"
  v_WN_N :: "real list list"
  weight :: "real list"
  mass :: "real list"
  airspeed :: "real list"
  command :: userCommand
  v_BN_W_c_hist :: "real list"
  gamma_c_hist :: "real list"
  sigma_c_hist :: "real list"
  units :: string
  angles :: string
  V_err :: pyfloat
  xT :: real
  hdot_err :: pyfloat
  Tc :: real
  Thrust :: "real list"
  xL :: real
  Lc :: real
  Lift :: "real list"
  alpha_c :: "real list"
  h_c :: "real list"
  sigma_err :: pyfloat
  alpha :: "real list"
  drag :: "real list"
  mu :: "real list"
  out :: "diag list"

text \<open>
  Every history the methods read with \<open>[-1]\<close> or \<open>[0]\<close> holds an element; on an empty
  one the source raises IndexError, and the model says nothing.
\<close>

definition histories_nonempty :: "guidance \<Rightarrow> bool" where
  "histories_nonempty s =
     (time s \<noteq> [] \<and> mass s \<noteq> [] \<and> v_BN_W s \<noteq> [] \<and> gamma s \<noteq> [] \<and> sigma s \<noteq> [] \<and>
      lat s \<noteq> [] \<and> lon s \<noteq> [] \<and> h s \<noteq> [] \<and> airspeed s \<noteq> [] \<and> alpha s \<noteq> [] \<and>
      drag s \<noteq> [] \<and> mu s \<noteq> [] \<and> Thrust s \<noteq> [] \<and> Lift s \<noteq> [])"

subsection \<open>Algebraic outputs\<close>

definition calculateAlpha :: "env \<Rightarrow> guidance \<Rightarrow> real" where
  "calculateAlpha E s =
     ((2 * last (Lift s)) /
        (const_density E * wing_area (Vehicle s) * C_Lalpha (Vehicle s) * (last (airspeed s))\<^sup>2))
     + alpha_o (Vehicle s)"

definition calculateDrag :: "env \<Rightarrow> guidance \<Rightarrow> real" where
  "calculateDrag E s =
     0.5 * const_density E * wing_area (Vehicle s) * C_Do (Vehicle s) * (last (airspeed s))\<^sup>2
     + (2 * (last (Lift s))\<^sup>2) /
         (const_density E * wing_area (Vehicle s) * pi * aspect_ratio (Vehicle s)
            * wing_eff (Vehicle s) * (last (airspeed s))\<^sup>2)"

text \<open>
  \<open>the\<close> reads a commanded value or an error term as a number. The three loops run only
  behind the NaN test of \<open>getGuidanceCommands\<close>, and each assigns its error term before
  it reads it.
\<close>

definition calculateMu :: "env \<Rightarrow> guidance \<Rightarrow> real" where
  "calculateMu E s =
     K_mu_p s * (num (cmd_v_BN_W (command s)) / const_gravity E) * num (sigma_err s)"

subsection \<open>The right-hand sides\<close>

definition xT_dot_ode :: "guidance \<Rightarrow> ode" where
  "xT_dot_ode s t y = [last (mass s) * num (V_err s)]"

definition T_dot_ode :: "guidance \<Rightarrow> ode" where
  "T_dot_ode s t y = map (\<lambda>T. - 1 * omega_T (Vehicle s) * T + omega_T (Vehicle s) * Tc s) y"

definition xL_dot_ode :: "guidance \<Rightarrow> ode" where
  "xL_dot_ode s t y = [last (mass s) * num (hdot_err s)]"

definition L_dot_ode :: "guidance \<Rightarrow> ode" where
  "L_dot_ode s t y = map (\<lambda>L. - 1 * omega_L (Vehicle s) * L + omega_L (Vehicle s) * Lc s) y"

definition m_dot_ode :: "guidance \<Rightarrow> ode" where
  "m_dot_ode s t y = [- 1 * Kf (Vehicle s) * last (Thrust s)]"

definition eom_ode :: "env \<Rightarrow> guidance \<Rightarrow> ode" where
  "eom_ode E s t y =
     [((last (Thrust s) - last (drag s)) / last (mass s))
        - const_gravity E * sin (last (gamma s)),
      (1 / last (v_BN_W s))
        * ((last (Lift s) * cos (last (mu s)) / last (mass s))
           - const_gravity E * cos (last (gamma s))),
      (1 / (last (v_BN_W s) * cos (last (gamma s))))
        * (last (Lift s) * sin (last (mu s)) / last (mass s))]"

definition ecef_ode :: "env \<Rightarrow> guidance \<Rightarrow> ode" where
  "ecef_ode E s t y =
     [last (v_BN_W s) * cos (last (gamma s)) * cos (last (sigma s)) / (Re_bar E + last (h s)),
      last (v_BN_W s) * cos (last (gamma s)) * sin (last (sigma s))
        / ((Re_bar E + last (h s)) * cos (last (lat s))),
      last (v_BN_W s) * sin (last (gamma s))]"

subsection \<open>Construction\<close>

text \<open>
  The two dictionaries are records, so a missing key is excluded by the types. The
  histories \<open>alpha\<close>, \<open>drag\<close> and \<open>mu\<close> are assigned last, from the object built so far.
\<close>

definition create :: "env \<Rightarrow> vehicle \<Rightarrow> TF_constants \<Rightarrow> InitialConditions \<Rightarrow> real \<Rightarrow> real \<Rightarrow> guidance" where
  "create E V TF IC t0 d =
     (let s0 = \<lparr>Vehicle = V,
                K_Tp = tf_K_Tp TF, K_Ti = tf_K_Ti TF, K_Lp = tf_K_Lp TF, K_Li = tf_K_Li TF,
                K_mu_p = tf_K_mu_p TF,
                dt = d,
                time = [t0],
                v_BN_W = [ic_v_BN_W IC],
                h = [ic_h IC],
                gamma = [ic_gamma IC],
                sigma = [ic_sigma IC],
                lat = [ic_lat IC],
                lon = [ic_lon IC],
                v_WN_N = [ic_v_WN_N IC],
                weight = [ic_weight IC],
                mass = [ic_weight IC / const_gravity E],
                airspeed = [wind_vector E (ic_v_BN_W IC) (ic_gamma IC) (ic_sigma IC)],
                command = userCommand_init E (Num (ic_v_BN_W IC)) (Num (ic_gamma IC))
                            (Num (ic_sigma IC)),
                v_BN_W_c_hist = [0], gamma_c_hist = [0], sigma_c_hist = [0],
                units = veh_units V, angles = veh_angles V,
                V_err = Num 0, xT = 0, hdot_err = Num 0, Tc = 0, Thrust = [0],
                xL = 0, Lc = 0, Lift = [0], alpha_c = [0], h_c = [0],
                sigma_err = Num 0,
                alpha = [], drag = [], mu = [], out = []\<rparr>;
          s1 = s0\<lparr>alpha := [calculateAlpha E s0]\<rparr>;
          s2 = s1\<lparr>drag := [calculateDrag E s1]\<rparr>
      in s2\<lparr>mu := [calculateMu E s2]\<rparr>)"

subsection \<open>Commanding a trajectory\<close>

definition setCommandTrajectory :: "env \<Rightarrow> pyfloat \<Rightarrow> pyfloat \<Rightarrow> pyfloat \<Rightarrow> guidance \<Rightarrow> guidance" where
  "setCommandTrajectory E velocity flight_path_angle heading s =
     (let c = (command s)\<lparr>cmd_v_BN_W := velocity, cmd_gamma := flight_path_angle,
                           cmd_sigma := heading\<rparr>;
          c' = c\<lparr>cmd_airspeed := lift3 (wind_vector E) (cmd_v_BN_W c) (cmd_gamma c) (cmd_sigma c)\<rparr>;
          s1 = s\<lparr>command := c'\<rparr>;
          s2 = s1\<lparr>V_err := lift2 (-) (cmd_v_BN_W (command s1)) (Num (last (v_BN_W s1)))\<rparr>;
          s3 = s2\<lparr>hdot_err :=
                    lift2 (*) (cmd_v_BN_W (command s2))
                      (lift2 (-) (lift1 sin (cmd_gamma (command s2)))
                         (Num (sin (last (gamma s2)))))\<rparr>
      in s3\<lparr>sigma_err := lift2 (-) (cmd_sigma (command s3)) (Num (last (sigma s3)))\<rparr>)"

subsection \<open>The three guidance loops\<close>

text \<open>
  Each loop mutates the object; the tuple it also returns is dropped by its only caller,
  and so by the model. A solver result \<open>sol.y[-1][-1]\<close> of a scalar equation is
  \<open>last sol\<close>; for the three-component systems \<open>sol.y[i][-1]\<close> is \<open>sol ! i\<close>.
  A right-hand side is a bound method: it reads the object as it is when the solver runs.
\<close>

definition thrustGuidanceSystem :: "env \<Rightarrow> real \<Rightarrow> guidance \<Rightarrow> guidance" where
  "thrustGuidanceSystem E d s =
     (let xT_old = xT s;
          s1 = s\<lparr>V_err := lift2 (-) (cmd_v_BN_W (command s)) (Num (last (v_BN_W s)))\<rparr>;
          sol = solve_ivp E (xT_dot_ode s1) (last (time s1)) (last (time s1) + d) [xT_old];
          s2 = s1\<lparr>xT := last sol\<rparr>;
          s3 = s2\<lparr>Tc := K_Ti s2 * xT s2 + K_Tp s2 * last (mass s2) * num (V_err s2)\<rparr>;
          s4 = (if Tc s3 > T_max (Vehicle s3)
                then s3\<lparr>out := out s3 @ [ThrustExceeds (Tc s3) (T_max (Vehicle s3))],
                        Tc := T_max (Vehicle s3)\<rparr>
                else s3);
          sol' = solve_ivp E (T_dot_ode s4) (last (time s4)) (last (time s4) + d)
                   [last (Thrust s4)];
          s5 = s4\<lparr>Thrust := Thrust s4 @ [last sol']\<rparr>
      in if last (Thrust s5) > T_max (Vehicle s5)
         then s5\<lparr>Thrust := (Thrust s5)[length (Thrust s5) - 1 := T_max (Vehicle s5)]\<rparr>
         else s5)"

definition liftGuidanceSystem :: "env \<Rightarrow> real \<Rightarrow> guidance \<Rightarrow> guidance" where
  "liftGuidanceSystem E d s =
     (let L_max = (last (v_BN_W s))\<^sup>2 * K_Lmax (Vehicle s);
          xL_old = xL s;
          s1 = s\<lparr>hdot_err :=
                    lift2 (*) (cmd_v_BN_W (command s))
                      (lift2 (-) (lift1 sin (cmd_gamma (command s)))
                         (Num (sin (last (gamma s)))))\<rparr>;
          sol = solve_ivp E (xL_dot_ode s1) (last (time s1)) (last (time s1) + d) [xL_old];
          s2 = s1\<lparr>xL := last sol\<rparr>;
          s3 = s2\<lparr>Lc := K_Li s2 * xL s2 + K_Lp s2 * last (mass s2) * num (hdot_err s2)\<rparr>;
          s4 = (if Lc s3 > L_max
                then s3\<lparr>out := out s3 @ [LiftExceeds (Lc s3) L_max], Lc := L_max\<rparr>
                else s3);
          sol' = solve_ivp E (L_dot_ode s4) (last (time s4)) (last (time s4) + d)
                   [last (Lift s4)];
          s5 = s4\<lparr>Lift := Lift s4 @ [last sol']\<rparr>;
          s6 = (if last (Lift s5) > L_max
                then s5\<lparr>Lift := (Lift s5)[length (Lift s5) - 1 := L_max]\<rparr>
                else s5);
          a_c = 2 * Lc s6 /
                  (const_density E * wing_area (Vehicle s6) * C_Lalpha (Vehicle s6)
                     * (last (airspeed s6))\<^sup>2)
                + alpha_o (Vehicle s6);
          s7 = s6\<lparr>alpha_c := alpha_c s6 @ [a_c]\<rparr>;
          hc = sin (num (cmd_gamma (command s7))) * num (cmd_v_BN_W (command s7))
                 * (last (time s7) + d) + hd (h s7)
      in s7\<lparr>h_c := h_c s7 @ [hc]\<rparr>)"

definition headingGuidanceSystem :: "env \<Rightarrow> real \<Rightarrow> guidance \<Rightarrow> guidance" where
  "headingGuidanceSystem E d s =
     (let s1 = s\<lparr>sigma_err := lift2 (-) (cmd_sigma (command s)) (Num (last (sigma s)))\<rparr>;
          m = calculateMu E s1
      in if \<bar>m\<bar> > mu_max (Vehicle s1)
         then s1\<lparr>out := out s1 @ [BankExceeds m (mu_max (Vehicle s1))],
                 mu := mu s1 @ [sgn m * mu_max (Vehicle s1)]\<rparr>
         else s1\<lparr>mu := mu s1 @ [m]\<rparr>)"

subsection \<open>One step\<close>

text \<open>
  \<open>np.nan in [...]\<close> holds when one of the three commanded values is the object
  \<open>np.nan\<close>; the method then prints and returns. Any other NaN passes the test.
\<close>

definition getGuidanceCommands :: "env \<Rightarrow> real option \<Rightarrow> guidance \<Rightarrow> guidance" where
  "getGuidanceCommands E dto s =
     (if Np_nan \<in> set [cmd_v_BN_W (command s), cmd_gamma (command s), cmd_sigma (command s)]
      then s\<lparr>out := out s @ [NoTrajectoryCommand]\<rparr>
      else
        (let d = (case dto of None \<Rightarrow> dt s | Some x \<Rightarrow> x)
         in headingGuidanceSystem E d (liftGuidanceSystem E d (thrustGuidanceSystem E d s))))"

definition getEquationsOfMotion_Ideal :: "env \<Rightarrow> real option \<Rightarrow> guidance \<Rightarrow> guidance" where
  "getEquationsOfMotion_Ideal E dto s =
     (let d = (case dto of None \<Rightarrow> dt s | Some x \<Rightarrow> x);
          sol = solve_ivp E (m_dot_ode s) (last (time s)) (last (time s) + d) [last (mass s)];
          s1 = s\<lparr>mass := mass s @ [last sol]\<rparr>;
          a = calculateAlpha E s1;
          dr = calculateDrag E s1;
          s2 = s1\<lparr>alpha := alpha s1 @ [a]\<rparr>;
          s3 = s2\<lparr>drag := drag s2 @ [dr]\<rparr>;
          y0 = [last (v_BN_W s3), last (gamma s3), last (sigma s3)];
          sol2 = solve_ivp E (eom_ode E s3) (last (time s3)) (last (time s3) + d) y0;
          s4 = s3\<lparr>v_BN_W := v_BN_W s3 @ [sol2 ! 0]\<rparr>;
          s5 = s4\<lparr>gamma := gamma s4 @ [sol2 ! 1]\<rparr>;
          s6 = s5\<lparr>sigma := sigma s5 @ [sol2 ! 2]\<rparr>;
          s7 = s6\<lparr>airspeed := airspeed s6 @
                    [wind_vector E (last (v_BN_W s6)) (last (gamma s6)) (last (sigma s6))]\<rparr>;
          y1 = [last (lat s7), last (lon s7), last (h s7)];
          sol3 = solve_ivp E (ecef_ode E s7) (last (time s7)) (last (time s7) + d) y1;
          s8 = s7\<lparr>lat := lat s7 @ [sol3 ! 0]\<rparr>;
          s9 = s8\<lparr>lon := lon s8 @ [sol3 ! 1]\<rparr>
      in s9\<lparr>h := h s9 @ [sol3 ! 2]\<rparr>)"

definition stepTime :: "env \<Rightarrow> real option \<Rightarrow> guidance \<Rightarrow> guidance" where
  "stepTime E dto s =
     (let d = (case dto of None \<Rightarrow> dt s | Some x \<Rightarrow> x);
          s1 = getGuidanceCommands E (Some d) s;
          s2 = getEquationsOfMotion_Ideal E (Some d) s1;
          s3 = s2\<lparr>command := save_history (command s2)\<rparr>
      in s3\<lparr>time := time s3 @ [last (time s3) + d]\<rparr>)"

subsection \<open>Runs\<close>

text \<open>A caller's session: the two public operations, in any order.\<close>

datatype action = SetCommand pyfloat pyfloat pyfloat | Step "real option"

fun apply_action :: "env \<Rightarrow> action \<Rightarrow> guidance \<Rightarrow> guidance" where
  "apply_action E (SetCommand v g sg) s = setCommandTrajectory E v g sg s"
| "apply_action E (Step dto) s = stepTime E dto s"

fun run :: "env \<Rightarrow> action list \<Rightarrow> guidance \<Rightarrow> guidance" where
  "run E [] s = s"
| "run E (a # as) s = run E as (apply_action E a s)"

fun is_step :: "action \<Rightarrow> bool" where
  "is_step (Step dto) = True"
| "is_step (SetCommand v g sg) = False"

fun finite_action :: "action \<Rightarrow> bool" where
  "finite_action (SetCommand v g sg) = (is_Num v \<and> is_Num g \<and> is_Num sg)"
| "finite_action (Step dto) = True"

fun positive_step :: "real \<Rightarrow> action \<Rightarrow> bool" where
  "positive_step d0 (Step dto) = (0 < (case dto of None \<Rightarrow> d0 | Some x \<Rightarrow> x))"
| "positive_step d0 (SetCommand v g sg) = True"

definition finite_command :: "guidance \<Rightarrow> bool" where
  "finite_command s =
     (is_Num (cmd_v_BN_W (command s)) \<and> is_Num (cmd_gamma (command s)) \<and>
      is_Num (cmd_sigma (command s)))"

text \<open>The test of \<open>getGuidanceCommands\<close>: one of the commanded values is \<open>np.nan\<close>.\<close>

definition np_nan_commanded :: "guidance \<Rightarrow> bool" where
  "np_nan_commanded s =
     (Np_nan \<in> set [cmd_v_BN_W (command s), cmd_gamma (command s), cmd_sigma (command s)])"

text \<open>The fourteen time-indexed histories of the engine all have length \<open>n\<close>.\<close>

definition histories_length :: "nat \<Rightarrow> guidance \<Rightarrow> bool" where
  "histories_length n s =
     (length (time s) = n \<and> length (mass s) = n \<and> length (v_BN_W s) = n \<and>
      length (gamma s) = n \<and> length (sigma s) = n \<and> length (lat s) = n \<and>
      length (lon s) = n \<and> length (h s) = n \<and> length (airspeed s) = n \<and>
      length (alpha s) = n \<and> length (drag s) = n \<and> length (mu s) = n \<and>
      length (Thrust s) = n \<and> length (Lift s) = n)"

text \<open>
  Each of the fourteen histories of \<open>s'\<close> is the history of \<open>s\<close> with one element
  appended.
\<close>

definition histories_extend :: "guidance \<Rightarrow> guidance \<Rightarrow> bool" where
  "histories_extend s s' =
     (length (time s') = Suc (length (time s)) \<and> butlast (time s') = time s \<and>
      length (mass s') = Suc (length (mass s)) \<and> butlast (mass s') = mass s \<and>
      length (v_BN_W s') = Suc (length (v_BN_W s)) \<and> butlast (v_BN_W s') = v_BN_W s \<and>
      length (gamma s') = Suc (length (gamma s)) \<and> butlast (gamma s') = gamma s \<and>
      length (sigma s') = Suc (length (sigma s)) \<and> butlast (sigma s') = sigma s \<and>
      length (lat s') = Suc (length (lat s)) \<and> butlast (lat s') = lat s \<and>
      length (lon s') = Suc (length (lon s)) \<and> butlast (lon s') = lon s \<and>
      length (h s') = Suc (length (h s)) \<and> butlast (h s') = h s \<and>
      length (airspeed s') = Suc (length (airspeed s)) \<and> butlast (airspeed s') = airspeed s \<and>
      length (alpha s') = Suc (length (alpha s)) \<and> butlast (alpha s') = alpha s \<and>
      length (drag s') = Suc (length (drag s)) \<and> butlast (drag s') = drag s \<and>
      length (mu s') = Suc (length (mu s)) \<and> butlast (mu s') = mu s \<and>
      length (Thrust s') = Suc (length (Thrust s)) \<and> butlast (Thrust s') = Thrust s \<and>
      length (Lift s') = Suc (length (Lift s)) \<and> butlast (Lift s') = Lift s)"

subsection \<open>The example of the test driver\<close>

text \<open>
  The aircraft, the gains and the initial conditions of \<open>run_FW_UAV_GNC_Test\<close>, with
  \<open>utils.mph2fps = 22/15\<close> and \<open>utils.d2r = pi/180\<close>. The values of gravity, density
  and Earth radius, still air for \<open>wind_vector\<close> and the single-step controller stand
  for the collaborators.
\<close>

definition utils0 :: env where
  "utils0 = \<lparr>const_gravity = 32, const_density = 1/400, Re_bar = 20900000,
             wind_vector = (\<lambda>v g sg. v), solve_ivp = rk45_solve one_step\<rparr>"

definition C130 :: vehicle where
  "C130 = \<lparr>weight_max = 327000, weight_min = 157000,
           speed_max = 600 * (22/15), speed_min = 200 * (22/15),
           Kf = 4/1000000, omega_T = 2, omega_L = 5/2, omega_mu = 1,
           T_max = 72000, K_Lmax = 26/10, mu_max = 30 * (pi/180),
           C_Do = 183/10000, C_Lalpha = (92/1000) / (pi/180), alpha_o = - (5/100) * (pi/180),
           wing_area = 1745, aspect_ratio = 101/10, wing_eff = 613/1000,
           veh_units = ''Imperial'', veh_angles = ''Radians''\<rparr>"

definition TF0 :: TF_constants where
  "TF0 = \<lparr>tf_K_Tp = 8/100, tf_K_Ti = 2/1000, tf_K_Lp = 1/2, tf_K_Li = 1/100,
          tf_K_mu_p = 75/1000\<rparr>"

definition init_cond :: InitialConditions where
  "init_cond = \<lparr>ic_v_BN_W = 400 * (22/15), ic_h = 0, ic_gamma = 0, ic_sigma = 0,
                ic_lat = 332098/10000 * (pi/180), ic_lon = - (875692/10000) * (pi/180),
                ic_v_WN_N = [25 * (22/15), 25 * (22/15), 0], ic_weight = 300000\<rparr>"

text \<open>The engine of the driver at time 0 with the default step of 0.01 s.\<close>

definition fresh :: guidance where
  "fresh = create utils0 C130 TF0 init_cond 0 (1/100)"

text \<open>The same engine commanded to slow down to 500 ft/s on its present path.\<close>

definition slowed :: guidance where
  "slowed = setCommandTrajectory utils0 (Num 500) (Num 0) (Num 0) fresh"

text \<open>The same engine handed \<open>np.nan\<close> as its commanded velocity.\<close>

definition nan_commanded :: guidance where
  "nan_commanded = setCommandTrajectory utils0 Np_nan (Num 0) (Num 0) fresh"

text \<open>The same engine handed \<open>float('nan')\<close> as its commanded heading.\<close>

definition nan_headed :: guidance where
  "nan_headed = setCommandTrajectory utils0 (Num 500) (Num 0) Other_nan fresh"

section \<open>Properties\<close>

subsection \<open>The integrator on a constant right-hand side\<close>

text \<open>
  On y' = y with h = 1 the step gives 1 + 1 + 1/2 + 1/6 + 1/24 + 1/120 + 1/600, the
  stability polynomial of the Dormand-Prince method.
\<close>

lemma rk45_step_exp: "rk45_step (\<lambda>t y. y) 0 [1] 1 = [1631/600]"
  by (simp add: rk45_step_def rk_stage_def Let_def)

lemma weights_sum: "35/384 * z + 0 * z + 500/1113 * z + 125/192 * z + - 2187/6784 * z + 11/84 * z = (z::real)"
  by simp

lemma rk45_step_const:
  assumes "length c = length y"
  shows "rk45_step (\<lambda>t y. c) t y hh = map2 (\<lambda>y d. y + hh * d) y c"
proof (rule nth_equalityI)
  show "length (rk45_step (\<lambda>t y. c) t y hh) = length (map2 (\<lambda>y d. y + hh * d) y c)"
    using assms by (simp add: rk45_step_def rk_stage_def)
next
  fix i assume "i < length (rk45_step (\<lambda>t y. c) t y hh)"
  then have i: "i < length y" by (simp add: rk45_step_def rk_stage_def)
  have "rk45_step (\<lambda>t y. c) t y hh ! i =
        y ! i + hh * (35/384 * c ! i + 0 * c ! i + 500/1113 * c ! i + 125/192 * c ! i
                      + - 2187/6784 * c ! i + 11/84 * c ! i)"
    using i by (simp add: rk45_step_def rk_stage_def)
  also have "\<dots> = y ! i + hh * c ! i"
    by (simp only: weights_sum)
  finally show "rk45_step (\<lambda>t y. c) t y hh ! i = map2 (\<lambda>y d. y + hh * d) y c ! i"
    using i assms by simp
qed

lemma rk45_run_const:
  "length c = length y \<Longrightarrow>
   rk45_run (\<lambda>t y. c) t y hs = map2 (\<lambda>y d. y + sum_list hs * d) y c"
proof (induction hs arbitrary: t y)
  case Nil
  then show ?case by (simp add: list_eq_iff_nth_eq)
next
  case (Cons a hs)
  define y' where "y' = map2 (\<lambda>y d. y + a * d) y c"
  have len: "length c = length y'"
    using Cons.prems by (simp add: y'_def)
  have "rk45_run (\<lambda>t y. c) t y (a # hs) = rk45_run (\<lambda>t y. c) (t + a) y' hs"
    using Cons.prems by (simp add: rk45_step_const y'_def)
  also have "\<dots> = map2 (\<lambda>y d. y + sum_list hs * d) y' c"
    by (rule Cons.IH[OF len])
  also have "\<dots> = map2 (\<lambda>y d. y + sum_list (a # hs) * d) y c"
    using Cons.prems by (simp add: y'_def list_eq_iff_nth_eq algebra_simps)
  finally show ?case .
qed

lemma rk45_exact: "covers ctrl \<Longrightarrow> exact_on_constant (rk45_solve ctrl)"
  by (simp add: covers_def exact_on_constant_def rk45_solve_def rk45_run_const)

lemma covers_one_step: "covers one_step"
  by (simp add: covers_def one_step_def)

lemma exact_scalar:
  "exact_on_constant solve \<Longrightarrow> last (solve (\<lambda>t y. [c]) t0 t1 [y0]) = y0 + (t1 - t0) * c"
  by (simp add: exact_on_constant_def)

lemma exact_triple:
  "exact_on_constant solve \<Longrightarrow>
   solve (\<lambda>t y. [c0, c1, c2]) t0 t1 [y0, y1, y2] =
     [y0 + (t1 - t0) * c0, y1 + (t1 - t0) * c1, y2 + (t1 - t0) * c2]"
  by (simp add: exact_on_constant_def)

subsection \<open>The effect of each method as one record update\<close>

lemma xT_dot_ode_eq: "xT_dot_ode s = (\<lambda>t y. [last (mass s) * num (V_err s)])"
  by (simp add: fun_eq_iff xT_dot_ode_def)

lemma T_dot_ode_eq:
  "T_dot_ode s = (\<lambda>t y. map (\<lambda>T. - 1 * omega_T (Vehicle s) * T + omega_T (Vehicle s) * Tc s) y)"
  by (simp add: fun_eq_iff T_dot_ode_def)

lemma xL_dot_ode_eq: "xL_dot_ode s = (\<lambda>t y. [last (mass s) * num (hdot_err s)])"
  by (simp add: fun_eq_iff xL_dot_ode_def)

lemma L_dot_ode_eq:
  "L_dot_ode s = (\<lambda>t y. map (\<lambda>L. - 1 * omega_L (Vehicle s) * L + omega_L (Vehicle s) * Lc s) y)"
  by (simp add: fun_eq_iff L_dot_ode_def)

lemma m_dot_ode_eq: "m_dot_ode s = (\<lambda>t y. [- 1 * Kf (Vehicle s) * last (Thrust s)])"
  by (simp add: fun_eq_iff m_dot_ode_def)

lemma thrust_cases:
  fixes E :: env and d :: real and s :: guidance
  obtains ve x raw tc th where
    "ve = lift2 (-) (cmd_v_BN_W (command s)) (Num (last (v_BN_W s)))"
    "x = last (solve_ivp E (\<lambda>t y. [last (mass s) * num ve]) (last (time s))
                (last (time s) + d) [xT s])"
    "raw = K_Ti s * x + K_Tp s * last (mass s) * num ve"
    "tc = (if raw > T_max (Vehicle s) then T_max (Vehicle s) else raw)"
    "th = last (solve_ivp E
                 (\<lambda>t y. map (\<lambda>T. - 1 * omega_T (Vehicle s) * T + omega_T (Vehicle s) * tc) y)
                 (last (time s)) (last (time s) + d) [last (Thrust s)])"
    "thrustGuidanceSystem E d s =
       s\<lparr>V_err := ve, xT := x, Tc := tc,
         out := (if raw > T_max (Vehicle s)
                 then out s @ [ThrustExceeds raw (T_max (Vehicle s))] else out s),
         Thrust := Thrust s @ [if th > T_max (Vehicle s) then T_max (Vehicle s) else th]\<rparr>"
proof -
  define ve where "ve = lift2 (-) (cmd_v_BN_W (command s)) (Num (last (v_BN_W s)))"
  define x where "x = last (solve_ivp E (\<lambda>t y. [last (mass s) * num ve]) (last (time s))
                (last (time s) + d) [xT s])"
  define raw where "raw = K_Ti s * x + K_Tp s * last (mass s) * num ve"
  define tc where "tc = (if raw > T_max (Vehicle s) then T_max (Vehicle s) else raw)"
  define th where "th = last (solve_ivp E
                 (\<lambda>t y. map (\<lambda>T. - 1 * omega_T (Vehicle s) * T + omega_T (Vehicle s) * tc) y)
                 (last (time s)) (last (time s) + d) [last (Thrust s)])"
  define xT_old where "xT_old = xT s"
  define s1 where "s1 = s\<lparr>V_err := lift2 (-) (cmd_v_BN_W (command s)) (Num (last (v_BN_W s)))\<rparr>"
  define sol where "sol = solve_ivp E (xT_dot_ode s1) (last (time s1)) (last (time s1) + d) [xT_old]"
  define s2 where "s2 = s1\<lparr>xT := last sol\<rparr>"
  define s3 where "s3 = s2\<lparr>Tc := K_Ti s2 * xT s2 + K_Tp s2 * last (mass s2) * num (V_err s2)\<rparr>"
  define s4 where "s4 = (if Tc s3 > T_max (Vehicle s3)
                then s3\<lparr>out := out s3 @ [ThrustExceeds (Tc s3) (T_max (Vehicle s3))],
                        Tc := T_max (Vehicle s3)\<rparr>
                else s3)"
  define sol' where "sol' = solve_ivp E (T_dot_ode s4) (last (time s4)) (last (time s4) + d)
                   [last (Thrust s4)]"
  define s5 where "s5 = s4\<lparr>Thrust := Thrust s4 @ [last sol']\<rparr>"
  have unf: "thrustGuidanceSystem E d s = (if last (Thrust s5) > T_max (Vehicle s5)
         then s5\<lparr>Thrust := (Thrust s5)[length (Thrust s5) - 1 := T_max (Vehicle s5)]\<rparr>
         else s5)"
    unfolding thrustGuidanceSystem_def
    apply (fold xT_old_def, subst Let_def)
    apply (fold s1_def, subst Let_def)
    apply (fold sol_def, subst Let_def)
    apply (fold s2_def, subst Let_def)
    apply (fold s3_def, subst Let_def)
    apply (fold s4_def, subst Let_def)
    apply (fold sol'_def, subst Let_def)
    apply (fold s5_def, subst Let_def)
    apply (rule refl)
    done
  have s1: "s1 = s\<lparr>V_err := ve\<rparr>" by (simp add: s1_def ve_def)
  have sol: "last sol = x" by (simp add: sol_def x_def s1 xT_dot_ode_eq xT_old_def)
  have s2: "s2 = s\<lparr>V_err := ve, xT := x\<rparr>" by (simp add: s2_def s1 sol)
  have s3: "s3 = s\<lparr>V_err := ve, xT := x, Tc := raw\<rparr>" by (simp add: s3_def s2 raw_def)
  have s4: "s4 = s\<lparr>V_err := ve, xT := x, Tc := tc,
       out := (if raw > T_max (Vehicle s)
               then out s @ [ThrustExceeds raw (T_max (Vehicle s))] else out s)\<rparr>"
    by (simp add: s4_def s3 tc_def)
  have sol': "last sol' = th" by (simp add: sol'_def th_def s4 T_dot_ode_eq)
  have s5: "s5 = s\<lparr>V_err := ve, xT := x, Tc := tc,
       out := (if raw > T_max (Vehicle s)
               then out s @ [ThrustExceeds raw (T_max (Vehicle s))] else out s),
       Thrust := Thrust s @ [th]\<rparr>"
    by (simp add: s5_def s4 sol')
  have "thrustGuidanceSystem E d s =
       s\<lparr>V_err := ve, xT := x, Tc := tc,
         out := (if raw > T_max (Vehicle s)
                 then out s @ [ThrustExceeds raw (T_max (Vehicle s))] else out s),
         Thrust := Thrust s @ [if th > T_max (Vehicle s) then T_max (Vehicle s) else th]\<rparr>"
    unfolding unf by (simp add: s5)
  then show ?thesis
    using that ve_def x_def raw_def tc_def th_def by blast
qed

lemma lift_cases:
  fixes E :: env and d :: real and s :: guidance
  obtains L_max he x raw lc lf where
    "L_max = (last (v_BN_W s))\<^sup>2 * K_Lmax (Vehicle s)"
    "he = lift2 (*) (cmd_v_BN_W (command s))
            (lift2 (-) (lift1 sin (cmd_gamma (command s))) (Num (sin (last (gamma s)))))"
    "x = last (solve_ivp E (\<lambda>t y. [last (mass s) * num he]) (last (time s))
                (last (time s) + d) [xL s])"
    "raw = K_Li s * x + K_Lp s * last (mass s) * num he"
    "lc = (if raw > L_max then L_max else raw)"
    "lf = last (solve_ivp E
                 (\<lambda>t y. map (\<lambda>L. - 1 * omega_L (Vehicle s) * L + omega_L (Vehicle s) * lc) y)
                 (last (time s)) (last (time s) + d) [last (Lift s)])"
    "liftGuidanceSystem E d s =
       s\<lparr>hdot_err := he, xL := x, Lc := lc,
         out := (if raw > L_max then out s @ [LiftExceeds raw L_max] else out s),
         Lift := Lift s @ [if lf > L_max then L_max else lf],
         alpha_c := alpha_c s @
           [2 * lc / (const_density E * wing_area (Vehicle s) * C_Lalpha (Vehicle s)
                        * (last (airspeed s))\<^sup>2) + alpha_o (Vehicle s)],
         h_c := h_c s @
           [sin (num (cmd_gamma (command s))) * num (cmd_v_BN_W (command s))
              * (last (time s) + d) + hd (h s)]\<rparr>"
proof -
  define L_max where "L_max = (last (v_BN_W s))\<^sup>2 * K_Lmax (Vehicle s)"
  define he where "he = lift2 (*) (cmd_v_BN_W (command s))
            (lift2 (-) (lift1 sin (cmd_gamma (command s))) (Num (sin (last (gamma s)))))"
  define x where "x = last (solve_ivp E (\<lambda>t y. [last (mass s) * num he]) (last (time s))
                (last (time s) + d) [xL s])"
  define raw where "raw = K_Li s * x + K_Lp s * last (mass s) * num he"
  define lc where "lc = (if raw > L_max then L_max else raw)"
  define lf where "lf = last (solve_ivp E
                 (\<lambda>t y. map (\<lambda>L. - 1 * omega_L (Vehicle s) * L + omega_L (Vehicle s) * lc) y)
                 (last (time s)) (last (time s) + d) [last (Lift s)])"
  define xL_old where "xL_old = xL s"
  define s1 where "s1 = s\<lparr>hdot_err :=
                    lift2 (*) (cmd_v_BN_W (command s))
                      (lift2 (-) (lift1 sin (cmd_gamma (command s)))
                         (Num (sin (last (gamma s)))))\<rparr>"
  define sol where "sol = solve_ivp E (xL_dot_ode s1) (last (time s1)) (last (time s1) + d) [xL_old]"
  define s2 where "s2 = s1\<lparr>xL := last sol\<rparr>"
  define s3 where "s3 = s2\<lparr>Lc := K_Li s2 * xL s2 + K_Lp s2 * last (mass s2) * num (hdot_err s2)\<rparr>"
  define s4 where "s4 = (if Lc s3 > L_max
                then s3\<lparr>out := out s3 @ [LiftExceeds (Lc s3) L_max], Lc := L_max\<rparr>
                else s3)"
  define sol' where "sol' = solve_ivp E (L_dot_ode s4) (last (time s4)) (last (time s4) + d)
                   [last (Lift s4)]"
  define s5 where "s5 = s4\<lparr>Lift := Lift s4 @ [last sol']\<rparr>"
  define s6 where "s6 = (if last (Lift s5) > L_max
                then s5\<lparr>Lift := (Lift s5)[length (Lift s5) - 1 := L_max]\<rparr>
                else s5)"
  define a_c where "a_c = 2 * Lc s6 /
                  (const_density E * wing_area (Vehicle s6) * C_Lalpha (Vehicle s6)
                     * (last (airspeed s6))\<^sup>2)
                + alpha_o (Vehicle s6)"
  define s7 where "s7 = s6\<lparr>alpha_c := alpha_c s6 @ [a_c]\<rparr>"
  define hc where "hc = sin (num (cmd_gamma (command s7))) * num (cmd_v_BN_W (command s7))
                 * (last (time s7) + d) + hd (h s7)"
  have unf: "liftGuidanceSystem E d s = s7\<lparr>h_c := h_c s7 @ [hc]\<rparr>"
    unfolding liftGuidanceSystem_def
    apply (fold L_max_def, subst Let_def)
    apply (fold xL_old_def, subst Let_def)
    apply (fold s1_def, subst Let_def)
    apply (fold sol_def, subst Let_def)
    apply (fold s2_def, subst Let_def)
    apply (fold s3_def, subst Let_def)
    apply (fold s4_def, subst Let_def)
    apply (fold sol'_def, subst Let_def)
    apply (fold s5_def, subst Let_def)
    apply (fold s6_def, subst Let_def)
    apply (fold a_c_def, subst Let_def)
    apply (fold s7_def, subst Let_def)
    apply (fold hc_def, subst Let_def)
    apply (rule refl)
    done
  have s1: "s1 = s\<lparr>hdot_err := he\<rparr>" by (simp add: s1_def he_def)
  have sol: "last sol = x" by (simp add: sol_def x_def s1 xL_dot_ode_eq xL_old_def)
  have s2: "s2 = s\<lparr>hdot_err := he, xL := x\<rparr>" by (simp add: s2_def s1 sol)
  have s3: "s3 = s\<lparr>hdot_err := he, xL := x, Lc := raw\<rparr>" by (simp add: s3_def s2 raw_def)
  have s4: "s4 = s\<lparr>hdot_err := he, xL := x, Lc := lc,
       out := (if raw > L_max then out s @ [LiftExceeds raw L_max] else out s)\<rparr>"
    by (simp add: s4_def s3 lc_def)
  have sol': "last sol' = lf" by (simp add: sol'_def lf_def s4 L_dot_ode_eq)
  have s5: "s5 = s\<lparr>hdot_err := he, xL := x, Lc := lc,
       out := (if raw > L_max then out s @ [LiftExceeds raw L_max] else out s),
       Lift := Lift s @ [lf]\<rparr>"
    by (simp add: s5_def s4 sol')
  have s6: "s6 = s\<lparr>hdot_err := he, xL := x, Lc := lc,
       out := (if raw > L_max then out s @ [LiftExceeds raw L_max] else out s),
       Lift := Lift s @ [if lf > L_max then L_max else lf]\<rparr>"
    by (simp add: s6_def s5)
  have a_c: "a_c = 2 * lc / (const_density E * wing_area (Vehicle s) * C_Lalpha (Vehicle s)
                        * (last (airspeed s))\<^sup>2) + alpha_o (Vehicle s)"
    by (simp add: a_c_def s6)
  have s7: "s7 = s\<lparr>hdot_err := he, xL := x, Lc := lc,
       out := (if raw > L_max then out s @ [LiftExceeds raw L_max] else out s),
       Lift := Lift s @ [if lf > L_max then L_max else lf],
       alpha_c := alpha_c s @ [a_c]\<rparr>"
    by (simp add: s7_def s6)
  have hc: "hc = sin (num (cmd_gamma (command s))) * num (cmd_v_BN_W (command s))
              * (last (time s) + d) + hd (h s)"
    by (simp add: hc_def s7)
  have "liftGuidanceSystem E d s =
       s\<lparr>hdot_err := he, xL := x, Lc := lc,
         out := (if raw > L_max then out s @ [LiftExceeds raw L_max] else out s),
         Lift := Lift s @ [if lf > L_max then L_max else lf],
         alpha_c := alpha_c s @
           [2 * lc / (const_density E * wing_area (Vehicle s) * C_Lalpha (Vehicle s)
                        * (last (airspeed s))\<^sup>2) + alpha_o (Vehicle s)],
         h_c := h_c s @
           [sin (num (cmd_gamma (command s))) * num (cmd_v_BN_W (command s))
              * (last (time s) + d) + hd (h s)]\<rparr>"
    unfolding unf by (simp add: s7 flip: a_c hc)
  then show ?thesis
    using that L_max_def he_def x_def raw_def lc_def lf_def by blast
qed

lemma heading_effect:
  fixes E :: env and d :: real and s :: guidance
  defines "se \<equiv> lift2 (-) (cmd_sigma (command s)) (Num (last (sigma s)))"
  defines "m \<equiv> K_mu_p s * (num (cmd_v_BN_W (command s)) / const_gravity E) * num se"
  shows "headingGuidanceSystem E d s =
     s\<lparr>sigma_err := se,
       out := (if \<bar>m\<bar> > mu_max (Vehicle s) then out s @ [BankExceeds m (mu_max (Vehicle s))]
               else out s),
       mu := mu s @ [if \<bar>m\<bar> > mu_max (Vehicle s) then sgn m * mu_max (Vehicle s) else m]\<rparr>"
  by (simp add: headingGuidanceSystem_def calculateMu_def se_def m_def)

lemma eom_cases:
  fixes E :: env and dto :: "real option" and s :: guidance
  obtains d m' sol2 sol3 s3 s7 where
    "d = (case dto of None \<Rightarrow> dt s | Some x \<Rightarrow> x)"
    "m' = last (solve_ivp E (\<lambda>t y. [- 1 * Kf (Vehicle s) * last (Thrust s)])
                    (last (time s)) (last (time s) + d) [last (mass s)])"
    "s3 = s\<lparr>mass := mass s @ [m'],
                   alpha := alpha s @ [calculateAlpha E s],
                   drag := drag s @ [calculateDrag E s]\<rparr>"
    "sol2 = solve_ivp E (eom_ode E s3) (last (time s)) (last (time s) + d)
                    [last (v_BN_W s), last (gamma s), last (sigma s)]"
    "s7 = s3\<lparr>v_BN_W := v_BN_W s @ [sol2 ! 0],
                    gamma := gamma s @ [sol2 ! 1],
                    sigma := sigma s @ [sol2 ! 2],
                    airspeed := airspeed s @ [wind_vector E (sol2 ! 0) (sol2 ! 1) (sol2 ! 2)]\<rparr>"
    "sol3 = solve_ivp E (ecef_ode E s7) (last (time s)) (last (time s) + d)
                    [last (lat s), last (lon s), last (h s)]"
    "getEquationsOfMotion_Ideal E dto s =
       s7\<lparr>lat := lat s @ [sol3 ! 0], lon := lon s @ [sol3 ! 1], h := h s @ [sol3 ! 2]\<rparr>"
proof -
  define d where "d = (case dto of None \<Rightarrow> dt s | Some x \<Rightarrow> x)"
  define m' where "m' = last (solve_ivp E (\<lambda>t y. [- 1 * Kf (Vehicle s) * last (Thrust s)])
                    (last (time s)) (last (time s) + d) [last (mass s)])"
  define s3 where "s3 = s\<lparr>mass := mass s @ [m'],
                   alpha := alpha s @ [calculateAlpha E s],
                   drag := drag s @ [calculateDrag E s]\<rparr>"
  define sol2 where "sol2 = solve_ivp E (eom_ode E s3) (last (time s)) (last (time s) + d)
                    [last (v_BN_W s), last (gamma s), last (sigma s)]"
  define s7 where "s7 = s3\<lparr>v_BN_W := v_BN_W s @ [sol2 ! 0],
                    gamma := gamma s @ [sol2 ! 1],
                    sigma := sigma s @ [sol2 ! 2],
                    airspeed := airspeed s @ [wind_vector E (sol2 ! 0) (sol2 ! 1) (sol2 ! 2)]\<rparr>"
  define sol3 where "sol3 = solve_ivp E (ecef_ode E s7) (last (time s)) (last (time s) + d)
                    [last (lat s), last (lon s), last (h s)]"
  define so1 where "so1 = solve_ivp E (m_dot_ode s) (last (time s)) (last (time s) + d) [last (mass s)]"
  define t1 where "t1 = s\<lparr>mass := mass s @ [last so1]\<rparr>"
  define a where "a = calculateAlpha E t1"
  define dr where "dr = calculateDrag E t1"
  define t2 where "t2 = t1\<lparr>alpha := alpha t1 @ [a]\<rparr>"
  define t3 where "t3 = t2\<lparr>drag := drag t2 @ [dr]\<rparr>"
  define y0 where "y0 = [last (v_BN_W t3), last (gamma t3), last (sigma t3)]"
  define so2 where "so2 = solve_ivp E (eom_ode E t3) (last (time t3)) (last (time t3) + d) y0"
  define t4 where "t4 = t3\<lparr>v_BN_W := v_BN_W t3 @ [so2 ! 0]\<rparr>"
  define t5 where "t5 = t4\<lparr>gamma := gamma t4 @ [so2 ! 1]\<rparr>"
  define t6 where "t6 = t5\<lparr>sigma := sigma t5 @ [so2 ! 2]\<rparr>"
  define t7 where "t7 = t6\<lparr>airspeed := airspeed t6 @
                    [wind_vector E (last (v_BN_W t6)) (last (gamma t6)) (last (sigma t6))]\<rparr>"
  define y1 where "y1 = [last (lat t7), last (lon t7), last (h t7)]"
  define so3 where "so3 = solve_ivp E (ecef_ode E t7) (last (time t7)) (last (time t7) + d) y1"
  define t8 where "t8 = t7\<lparr>lat := lat t7 @ [so3 ! 0]\<rparr>"
  define t9 where "t9 = t8\<lparr>lon := lon t8 @ [so3 ! 1]\<rparr>"
  have unf: "getEquationsOfMotion_Ideal E dto s = t9\<lparr>h := h t9 @ [so3 ! 2]\<rparr>"
    unfolding getEquationsOfMotion_Ideal_def
    apply (fold d_def, subst Let_def)
    apply (fold so1_def, subst Let_def)
    apply (fold t1_def, subst Let_def)
    apply (fold a_def, subst Let_def)
    apply (fold dr_def, subst Let_def)
    apply (fold t2_def, subst Let_def)
    apply (fold t3_def, subst Let_def)
    apply (fold y0_def, subst Let_def)
    apply (fold so2_def, subst Let_def)
    apply (fold t4_def, subst Let_def)
    apply (fold t5_def, subst Let_def)
    apply (fold t6_def, subst Let_def)
    apply (fold t7_def, subst Let_def)
    apply (fold y1_def, subst Let_def)
    apply (fold so3_def, subst Let_def)
    apply (fold t8_def, subst Let_def)
    apply (fold t9_def, subst Let_def)
    apply (rule refl)
    done
  have t1: "t1 = s\<lparr>mass := mass s @ [m']\<rparr>" by (simp add: t1_def so1_def m'_def m_dot_ode_eq)
  have a: "a = calculateAlpha E s" "dr = calculateDrag E s"
    unfolding a_def dr_def t1 by (simp_all add: calculateAlpha_def calculateDrag_def)
  have t3: "t3 = s3" by (simp add: t3_def t2_def a t1 s3_def)
  have s3f: "time s3 = time s" "v_BN_W s3 = v_BN_W s" "gamma s3 = gamma s" "sigma s3 = sigma s"
    "airspeed s3 = airspeed s"
    by (simp_all add: s3_def)
  have so2: "so2 = sol2" by (simp add: so2_def y0_def sol2_def t3 s3f)
  have t7: "t7 = s7" by (simp add: t7_def t6_def t5_def t4_def t3 so2 s7_def s3f)
  have s7f: "time s7 = time s" "lat s7 = lat s" "lon s7 = lon s" "h s7 = h s"
    by (simp_all add: s7_def s3_def)
  have so3: "so3 = sol3" by (simp add: so3_def y1_def sol3_def t7 s7f)
  have "getEquationsOfMotion_Ideal E dto s =
       s7\<lparr>lat := lat s @ [sol3 ! 0], lon := lon s @ [sol3 ! 1], h := h s @ [sol3 ! 2]\<rparr>"
    unfolding unf by (simp add: t9_def t8_def t7 so3 s7f)
  then show ?thesis
    using that d_def m'_def s3_def sol2_def s7_def sol3_def by blast
qed

lemma set_effect:
  "setCommandTrajectory E v g sg s =
     s\<lparr>command := (command s)\<lparr>cmd_v_BN_W := v, cmd_gamma := g, cmd_sigma := sg,
                              cmd_airspeed := lift3 (wind_vector E) v g sg\<rparr>,
       V_err := lift2 (-) v (Num (last (v_BN_W s))),
       hdot_err := lift2 (*) v (lift2 (-) (lift1 sin g) (Num (sin (last (gamma s))))),
       sigma_err := lift2 (-) sg (Num (last (sigma s)))\<rparr>"
  by (simp add: setCommandTrajectory_def Let_def)

text \<open>
  C10: setCommandTrajectory changes the commanded values, the derived commanded airspeed and
  the three error terms, and nothing else: every state history, the command histories, both
  integrator memories, the commands and outputs of the loops, the gains, the vehicle, the
  step size and the printed messages are unchanged.
\<close>

theorem C10_setCommandTrajectory_frame:
  "time (setCommandTrajectory E v g sg s) = time s \<and>
   mass (setCommandTrajectory E v g sg s) = mass s \<and>
   v_BN_W (setCommandTrajectory E v g sg s) = v_BN_W s \<and>
   gamma (setCommandTrajectory E v g sg s) = gamma s \<and>
   sigma (setCommandTrajectory E v g sg s) = sigma s \<and>
   lat (setCommandTrajectory E v g sg s) = lat s \<and>
   lon (setCommandTrajectory E v g sg s) = lon s \<and>
   h (setCommandTrajectory E v g sg s) = h s \<and>
   airspeed (setCommandTrajectory E v g sg s) = airspeed s \<and>
   alpha (setCommandTrajectory E v g sg s) = alpha s \<and>
   drag (setCommandTrajectory E v g sg s) = drag s \<and>
   mu (setCommandTrajectory E v g sg s) = mu s \<and>
   Thrust (setCommandTrajectory E v g sg s) = Thrust s \<and>
   Lift (setCommandTrajectory E v g sg s) = Lift s \<and>
   alpha_c (setCommandTrajectory E v g sg s) = alpha_c s \<and>
   h_c (setCommandTrajectory E v g sg s) = h_c s \<and>
   v_WN_N (setCommandTrajectory E v g sg s) = v_WN_N s \<and>
   weight (setCommandTrajectory E v g sg s) = weight s \<and>
   v_BN_W_c_hist (setCommandTrajectory E v g sg s) = v_BN_W_c_hist s \<and>
   gamma_c_hist (setCommandTrajectory E v g sg s) = gamma_c_hist s \<and>
   sigma_c_hist (setCommandTrajectory E v g sg s) = sigma_c_hist s \<and>
   v_BN_W_history (command (setCommandTrajectory E v g sg s)) = v_BN_W_history (command s) \<and>
   gamma_history (command (setCommandTrajectory E v g sg s)) = gamma_history (command s) \<and>
   sigma_history (command (setCommandTrajectory E v g sg s)) = sigma_history (command s) \<and>
   airspeed_history (command (setCommandTrajectory E v g sg s)) = airspeed_history (command s) \<and>
   xT (setCommandTrajectory E v g sg s) = xT s \<and>
   xL (setCommandTrajectory E v g sg s) = xL s \<and>
   Tc (setCommandTrajectory E v g sg s) = Tc s \<and>
   Lc (setCommandTrajectory E v g sg s) = Lc s \<and>
   dt (setCommandTrajectory E v g sg s) = dt s \<and>
   Vehicle (setCommandTrajectory E v g sg s) = Vehicle s \<and>
   K_Tp (setCommandTrajectory E v g sg s) = K_Tp s \<and>
   K_Ti (setCommandTrajectory E v g sg s) = K_Ti s \<and>
   K_Lp (setCommandTrajectory E v g sg s) = K_Lp s \<and>
   K_Li (setCommandTrajectory E v g sg s) = K_Li s \<and>
   K_mu_p (setCommandTrajectory E v g sg s) = K_mu_p s \<and>
   units (setCommandTrajectory E v g sg s) = units s \<and>
   angles (setCommandTrajectory E v g sg s) = angles s \<and>
   out (setCommandTrajectory E v g sg s) = out s"
  unfolding set_effect by simp

lemma create_fields:
  "Vehicle (create E V TF IC t0 d) = V"
  "K_Tp (create E V TF IC t0 d) = tf_K_Tp TF"
  "K_Ti (create E V TF IC t0 d) = tf_K_Ti TF"
  "K_Lp (create E V TF IC t0 d) = tf_K_Lp TF"
  "K_Li (create E V TF IC t0 d) = tf_K_Li TF"
  "K_mu_p (create E V TF IC t0 d) = tf_K_mu_p TF"
  "dt (create E V TF IC t0 d) = d"
  "time (create E V TF IC t0 d) = [t0]"
  "v_BN_W (create E V TF IC t0 d) = [ic_v_BN_W IC]"
  "h (create E V TF IC t0 d) = [ic_h IC]"
  "gamma (create E V TF IC t0 d) = [ic_gamma IC]"
  "sigma (create E V TF IC t0 d) = [ic_sigma IC]"
  "lat (create E V TF IC t0 d) = [ic_lat IC]"
  "lon (create E V TF IC t0 d) = [ic_lon IC]"
  "mass (create E V TF IC t0 d) = [ic_weight IC / const_gravity E]"
  "airspeed (create E V TF IC t0 d) = [wind_vector E (ic_v_BN_W IC) (ic_gamma IC) (ic_sigma IC)]"
  "command (create E V TF IC t0 d) =
     userCommand_init E (Num (ic_v_BN_W IC)) (Num (ic_gamma IC)) (Num (ic_sigma IC))"
  "V_err (create E V TF IC t0 d) = Num 0"
  "xT (create E V TF IC t0 d) = 0"
  "hdot_err (create E V TF IC t0 d) = Num 0"
  "Tc (create E V TF IC t0 d) = 0"
  "Thrust (create E V TF IC t0 d) = [0]"
  "xL (create E V TF IC t0 d) = 0"
  "Lc (create E V TF IC t0 d) = 0"
  "Lift (create E V TF IC t0 d) = [0]"
  "alpha_c (create E V TF IC t0 d) = [0]"
  "h_c (create E V TF IC t0 d) = [0]"
  "sigma_err (create E V TF IC t0 d) = Num 0"
  "length (alpha (create E V TF IC t0 d)) = 1"
  "length (drag (create E V TF IC t0 d)) = 1"
  "mu (create E V TF IC t0 d) = [0]"
  "out (create E V TF IC t0 d) = []"
  by (simp_all add: create_def Let_def calculateMu_def)

lemma create_histories: "histories_length 1 (create E V TF IC t0 d)"
  by (simp add: histories_length_def create_fields)

lemma nonempty_iff: "histories_length (Suc n) s \<Longrightarrow> histories_nonempty s"
  by (auto simp: histories_length_def histories_nonempty_def)

lemma create_nonempty: "histories_nonempty (create E V TF IC t0 d)"
  using create_histories[of E V TF IC t0 d] by (simp add: nonempty_iff)

lemma create_finite: "finite_command (create E V TF IC t0 d)"
  by (simp add: finite_command_def create_fields userCommand_init_def)

lemma thrust_shape:
  fixes E :: env and d :: real and s :: guidance
  obtains ve x tc ou th where
    "thrustGuidanceSystem E d s =
       s\<lparr>V_err := ve, xT := x, Tc := tc, out := ou,
         Thrust := Thrust s @ [if th > T_max (Vehicle s) then T_max (Vehicle s) else th]\<rparr>"
  by (rule thrust_cases[where s=s and E=E and d=d], rule that, assumption)

lemma lift_shape:
  fixes E :: env and d :: real and s :: guidance
  obtains he x lc ou lf ac hc where
    "liftGuidanceSystem E d s =
       s\<lparr>hdot_err := he, xL := x, Lc := lc, out := ou,
         Lift := Lift s @ [if lf > (last (v_BN_W s))\<^sup>2 * K_Lmax (Vehicle s)
                           then (last (v_BN_W s))\<^sup>2 * K_Lmax (Vehicle s) else lf],
         alpha_c := alpha_c s @ [ac], h_c := h_c s @ [hc]\<rparr>"
proof (rule lift_cases[where s=s and E=E and d=d])
  fix L_max he x raw lc lf
  assume L: "L_max = (last (v_BN_W s))\<^sup>2 * K_Lmax (Vehicle s)"
    and eq: "liftGuidanceSystem E d s =
       s\<lparr>hdot_err := he, xL := x, Lc := lc,
         out := (if raw > L_max then out s @ [LiftExceeds raw L_max] else out s),
         Lift := Lift s @ [if lf > L_max then L_max else lf],
         alpha_c := alpha_c s @
           [2 * lc / (const_density E * wing_area (Vehicle s) * C_Lalpha (Vehicle s)
                        * (last (airspeed s))\<^sup>2) + alpha_o (Vehicle s)],
         h_c := h_c s @
           [sin (num (cmd_gamma (command s))) * num (cmd_v_BN_W (command s))
              * (last (time s) + d) + hd (h s)]\<rparr>"
  show thesis
    by (rule that) (rule eq[unfolded L])
qed


lemma thrust_frame:
  fixes E :: env and s :: guidance
  shows
  "Vehicle (thrustGuidanceSystem E d s) = Vehicle s"
  "K_Tp (thrustGuidanceSystem E d s) = K_Tp s"
  "K_Ti (thrustGuidanceSystem E d s) = K_Ti s"
  "K_Lp (thrustGuidanceSystem E d s) = K_Lp s"
  "K_Li (thrustGuidanceSystem E d s) = K_Li s"
  "K_mu_p (thrustGuidanceSystem E d s) = K_mu_p s"
  "dt (thrustGuidanceSystem E d s) = dt s"
  "time (thrustGuidanceSystem E d s) = time s"
  "v_BN_W (thrustGuidanceSystem E d s) = v_BN_W s"
  "h (thrustGuidanceSystem E d s) = h s"
  "gamma (thrustGuidanceSystem E d s) = gamma s"
  "sigma (thrustGuidanceSystem E d s) = sigma s"
  "lat (thrustGuidanceSystem E d s) = lat s"
  "lon (thrustGuidanceSystem E d s) = lon s"
  "v_WN_N (thrustGuidanceSystem E d s) = v_WN_N s"
  "weight (thrustGuidanceSystem E d s) = weight s"
  "mass (thrustGuidanceSystem E d s) = mass s"
  "airspeed (thrustGuidanceSystem E d s) = airspeed s"
  "command (thrustGuidanceSystem E d s) = command s"
  "v_BN_W_c_hist (thrustGuidanceSystem E d s) = v_BN_W_c_hist s"
  "gamma_c_hist (thrustGuidanceSystem E d s) = gamma_c_hist s"
  "sigma_c_hist (thrustGuidanceSystem E d s) = sigma_c_hist s"
  "units (thrustGuidanceSystem E d s) = units s"
  "angles (thrustGuidanceSystem E d s) = angles s"
  "hdot_err (thrustGuidanceSystem E d s) = hdot_err s"
  "xL (thrustGuidanceSystem E d s) = xL s"
  "Lc (thrustGuidanceSystem E d s) = Lc s"
  "Lift (thrustGuidanceSystem E d s) = Lift s"
  "alpha_c (thrustGuidanceSystem E d s) = alpha_c s"
  "h_c (thrustGuidanceSystem E d s) = h_c s"
  "sigma_err (thrustGuidanceSystem E d s) = sigma_err s"
  "alpha (thrustGuidanceSystem E d s) = alpha s"
  "drag (thrustGuidanceSystem E d s) = drag s"
  "mu (thrustGuidanceSystem E d s) = mu s"
  by (rule thrust_shape[where s=s and E=E and d=d], simp)+

lemma lift_frame:
  fixes E :: env and s :: guidance
  shows
  "Vehicle (liftGuidanceSystem E d s) = Vehicle s"
  "K_Tp (liftGuidanceSystem E d s) = K_Tp s"
  "K_Ti (liftGuidanceSystem E d s) = K_Ti s"
  "K_Lp (liftGuidanceSystem E d s) = K_Lp s"
  "K_Li (liftGuidanceSystem E d s) = K_Li s"
  "K_mu_p (liftGuidanceSystem E d s) = K_mu_p s"
  "dt (liftGuidanceSystem E d s) = dt s"
  "time (liftGuidanceSystem E d s) = time s"
  "v_BN_W (liftGuidanceSystem E d s) = v_BN_W s"
  "h (liftGuidanceSystem E d s) = h s"
  "gamma (liftGuidanceSystem E d s) = gamma s"
  "sigma (liftGuidanceSystem E d s) = sigma s"
  "lat (liftGuidanceSystem E d s) = lat s"
  "lon (liftGuidanceSystem E d s) = lon s"
  "v_WN_N (liftGuidanceSystem E d s) = v_WN_N s"
  "weight (liftGuidanceSystem E d s) = weight s"
  "mass (liftGuidanceSystem E d s) = mass s"
  "airspeed (liftGuidanceSystem E d s) = airspeed s"
  "command (liftGuidanceSystem E d s) = command s"
  "v_BN_W_c_hist (liftGuidanceSystem E d s) = v_BN_W_c_hist s"
  "gamma_c_hist (liftGuidanceSystem E d s) = gamma_c_hist s"
  "sigma_c_hist (liftGuidanceSystem E d s) = sigma_c_hist s"
  "units (liftGuidanceSystem E d s) = units s"
  "angles (liftGuidanceSystem E d s) = angles s"
  "V_err (liftGuidanceSystem E d s) = V_err s"
  "xT (liftGuidanceSystem E d s) = xT s"
  "Tc (liftGuidanceSystem E d s) = Tc s"
  "Thrust (liftGuidanceSystem E d s) = Thrust s"
  "sigma_err (liftGuidanceSystem E d s) = sigma_err s"
  "alpha (liftGuidanceSystem E d s) = alpha s"
  "drag (liftGuidanceSystem E d s) = drag s"
  "mu (liftGuidanceSystem E d s) = mu s"
  by (rule lift_shape[where s=s and E=E and d=d], simp)+

lemma heading_frame:
  fixes E :: env and s :: guidance
  shows
  "Vehicle (headingGuidanceSystem E d s) = Vehicle s"
  "K_Tp (headingGuidanceSystem E d s) = K_Tp s"
  "K_Ti (headingGuidanceSystem E d s) = K_Ti s"
  "K_Lp (headingGuidanceSystem E d s) = K_Lp s"
  "K_Li (headingGuidanceSystem E d s) = K_Li s"
  "K_mu_p (headingGuidanceSystem E d s) = K_mu_p s"
  "dt (headingGuidanceSystem E d s) = dt s"
  "time (headingGuidanceSystem E d s) = time s"
  "v_BN_W (headingGuidanceSystem E d s) = v_BN_W s"
  "h (headingGuidanceSystem E d s) = h s"
  "gamma (headingGuidanceSystem E d s) = gamma s"
  "sigma (headingGuidanceSystem E d s) = sigma s"
  "lat (headingGuidanceSystem E d s) = lat s"
  "lon (headingGuidanceSystem E d s) = lon s"
  "v_WN_N (headingGuidanceSystem E d s) = v_WN_N s"
  "weight (headingGuidanceSystem E d s) = weight s"
  "mass (headingGuidanceSystem E d s) = mass s"
  "airspeed (headingGuidanceSystem E d s) = airspeed s"
  "command (headingGuidanceSystem E d s) = command s"
  "v_BN_W_c_hist (headingGuidanceSystem E d s) = v_BN_W_c_hist s"
  "gamma_c_hist (headingGuidanceSystem E d s) = gamma_c_hist s"
  "sigma_c_hist (headingGuidanceSystem E d s) = sigma_c_hist s"
  "units (headingGuidanceSystem E d s) = units s"
  "angles (headingGuidanceSystem E d s) = angles s"
  "V_err (headingGuidanceSystem E d s) = V_err s"
  "xT (headingGuidanceSystem E d s) = xT s"
  "hdot_err (headingGuidanceSystem E d s) = hdot_err s"
  "Tc (headingGuidanceSystem E d s) = Tc s"
  "Thrust (headingGuidanceSystem E d s) = Thrust s"
  "xL (headingGuidanceSystem E d s) = xL s"
  "Lc (headingGuidanceSystem E d s) = Lc s"
  "Lift (headingGuidanceSystem E d s) = Lift s"
  "alpha_c (headingGuidanceSystem E d s) = alpha_c s"
  "h_c (headingGuidanceSystem E d s) = h_c s"
  "alpha (headingGuidanceSystem E d s) = alpha s"
  "drag (headingGuidanceSystem E d s) = drag s"
  by (simp_all add: heading_effect)

lemma eom_frame:
  fixes E :: env and s :: guidance
  shows
  "Vehicle (getEquationsOfMotion_Ideal E dto s) = Vehicle s"
  "K_Tp (getEquationsOfMotion_Ideal E dto s) = K_Tp s"
  "K_Ti (getEquationsOfMotion_Ideal E dto s) = K_Ti s"
  "K_Lp (getEquationsOfMotion_Ideal E dto s) = K_Lp s"
  "K_Li (getEquationsOfMotion_Ideal E dto s) = K_Li s"
  "K_mu_p (getEquationsOfMotion_Ideal E dto s) = K_mu_p s"
  "dt (getEquationsOfMotion_Ideal E dto s) = dt s"
  "time (getEquationsOfMotion_Ideal E dto s) = time s"
  "v_WN_N (getEquationsOfMotion_Ideal E dto s) = v_WN_N s"
  "weight (getEquationsOfMotion_Ideal E dto s) = weight s"
  "command (getEquationsOfMotion_Ideal E dto s) = command s"
  "v_BN_W_c_hist (getEquationsOfMotion_Ideal E dto s) = v_BN_W_c_hist s"
  "gamma_c_hist (getEquationsOfMotion_Ideal E dto s) = gamma_c_hist s"
  "sigma_c_hist (getEquationsOfMotion_Ideal E dto s) = sigma_c_hist s"
  "units (getEquationsOfMotion_Ideal E dto s) = units s"
  "angles (getEquationsOfMotion_Ideal E dto s) = angles s"
  "V_err (getEquationsOfMotion_Ideal E dto s) = V_err s"
  "xT (getEquationsOfMotion_Ideal E dto s) = xT s"
  "hdot_err (getEquationsOfMotion_Ideal E dto s) = hdot_err s"
  "Tc (getEquationsOfMotion_Ideal E dto s) = Tc s"
  "Thrust (getEquationsOfMotion_Ideal E dto s) = Thrust s"
  "xL (getEquationsOfMotion_Ideal E dto s) = xL s"
  "Lc (getEquationsOfMotion_Ideal E dto s) = Lc s"
  "Lift (getEquationsOfMotion_Ideal E dto s) = Lift s"
  "alpha_c (getEquationsOfMotion_Ideal E dto s) = alpha_c s"
  "h_c (getEquationsOfMotion_Ideal E dto s) = h_c s"
  "sigma_err (getEquationsOfMotion_Ideal E dto s) = sigma_err s"
  "mu (getEquationsOfMotion_Ideal E dto s) = mu s"
  "out (getEquationsOfMotion_Ideal E dto s) = out s"
  by (rule eom_cases[where s=s and E=E and dto=dto], simp)+


lemma thrust_Thrust:
  fixes E :: env and s :: guidance
  obtains th where
    "Thrust (thrustGuidanceSystem E d s) =
       Thrust s @ [if th > T_max (Vehicle s) then T_max (Vehicle s) else th]"
  by (rule thrust_shape[where s=s and E=E and d=d]) simp

lemma lift_Lift:
  fixes E :: env and s :: guidance
  obtains lf where
    "Lift (liftGuidanceSystem E d s) =
       Lift s @ [if lf > (last (v_BN_W s))\<^sup>2 * K_Lmax (Vehicle s)
                 then (last (v_BN_W s))\<^sup>2 * K_Lmax (Vehicle s) else lf]"
  by (rule lift_shape[where s=s and E=E and d=d]) simp

lemma lift_lengths:
  fixes E :: env and s :: guidance
  shows "length (Lift (liftGuidanceSystem E d s)) = Suc (length (Lift s))"
    "length (alpha_c (liftGuidanceSystem E d s)) = Suc (length (alpha_c s))"
    "length (h_c (liftGuidanceSystem E d s)) = Suc (length (h_c s))"
  by (rule lift_shape[where s=s and E=E and d=d], simp)+

lemma eom_lengths:
  fixes E :: env and s :: guidance
  shows "length (mass (getEquationsOfMotion_Ideal E dto s)) = Suc (length (mass s))"
    "length (alpha (getEquationsOfMotion_Ideal E dto s)) = Suc (length (alpha s))"
    "length (drag (getEquationsOfMotion_Ideal E dto s)) = Suc (length (drag s))"
    "length (v_BN_W (getEquationsOfMotion_Ideal E dto s)) = Suc (length (v_BN_W s))"
    "length (gamma (getEquationsOfMotion_Ideal E dto s)) = Suc (length (gamma s))"
    "length (sigma (getEquationsOfMotion_Ideal E dto s)) = Suc (length (sigma s))"
    "length (airspeed (getEquationsOfMotion_Ideal E dto s)) = Suc (length (airspeed s))"
    "length (lat (getEquationsOfMotion_Ideal E dto s)) = Suc (length (lat s))"
    "length (lon (getEquationsOfMotion_Ideal E dto s)) = Suc (length (lon s))"
    "length (h (getEquationsOfMotion_Ideal E dto s)) = Suc (length (h s))"
  by (rule eom_cases[where s=s and E=E and dto=dto], simp)+

lemma eom_prefix:
  fixes E :: env and s :: guidance
  shows "butlast (mass (getEquationsOfMotion_Ideal E dto s)) = mass s"
    "butlast (alpha (getEquationsOfMotion_Ideal E dto s)) = alpha s"
    "butlast (drag (getEquationsOfMotion_Ideal E dto s)) = drag s"
    "butlast (v_BN_W (getEquationsOfMotion_Ideal E dto s)) = v_BN_W s"
    "butlast (gamma (getEquationsOfMotion_Ideal E dto s)) = gamma s"
    "butlast (sigma (getEquationsOfMotion_Ideal E dto s)) = sigma s"
    "butlast (airspeed (getEquationsOfMotion_Ideal E dto s)) = airspeed s"
    "butlast (lat (getEquationsOfMotion_Ideal E dto s)) = lat s"
    "butlast (lon (getEquationsOfMotion_Ideal E dto s)) = lon s"
    "butlast (h (getEquationsOfMotion_Ideal E dto s)) = h s"
  by (rule eom_cases[where s=s and E=E and dto=dto], simp)+

lemma eom_mass:
  fixes E :: env and s :: guidance and dto :: "real option"
  shows "mass (getEquationsOfMotion_Ideal E dto s) =
     mass s @ [last (solve_ivp E (\<lambda>t y. [- 1 * Kf (Vehicle s) * last (Thrust s)])
                 (last (time s)) (last (time s) + (case dto of None \<Rightarrow> dt s | Some x \<Rightarrow> x))
                 [last (mass s)])]"
  by (rule eom_cases[where s=s and E=E and dto=dto]) simp

lemma guidance_runs:
  "\<not> np_nan_commanded s \<Longrightarrow>
   getGuidanceCommands E dto s =
     headingGuidanceSystem E (case dto of None \<Rightarrow> dt s | Some x \<Rightarrow> x)
       (liftGuidanceSystem E (case dto of None \<Rightarrow> dt s | Some x \<Rightarrow> x)
          (thrustGuidanceSystem E (case dto of None \<Rightarrow> dt s | Some x \<Rightarrow> x) s))"
  by (simp add: getGuidanceCommands_def np_nan_commanded_def Let_def)

lemma guidance_nan:
  "np_nan_commanded s \<Longrightarrow>
   getGuidanceCommands E dto s = s\<lparr>out := out s @ [NoTrajectoryCommand]\<rparr>"
  by (simp add: getGuidanceCommands_def np_nan_commanded_def)

lemma finite_not_nan: "finite_command s \<Longrightarrow> \<not> np_nan_commanded s"
  by (auto simp: finite_command_def np_nan_commanded_def)

lemma guidance_finite:
  "finite_command s \<Longrightarrow>
   getGuidanceCommands E dto s =
     headingGuidanceSystem E (case dto of None \<Rightarrow> dt s | Some x \<Rightarrow> x)
       (liftGuidanceSystem E (case dto of None \<Rightarrow> dt s | Some x \<Rightarrow> x)
          (thrustGuidanceSystem E (case dto of None \<Rightarrow> dt s | Some x \<Rightarrow> x) s))"
  by (rule guidance_runs) (rule finite_not_nan)

lemma stepTime_eq:
  fixes E :: env and s :: guidance and dto :: "real option"
  defines "d \<equiv> (case dto of None \<Rightarrow> dt s | Some x \<Rightarrow> x)"
  defines "e \<equiv> getEquationsOfMotion_Ideal E (Some d) (getGuidanceCommands E (Some d) s)"
  shows "stepTime E dto s =
           e\<lparr>command := save_history (command e), time := time e @ [last (time e) + d]\<rparr>"
  by (simp add: stepTime_def Let_def d_def e_def)

subsection \<open>The example engines\<close>

lemma set_nonempty:
  "histories_nonempty s \<Longrightarrow> histories_nonempty (setCommandTrajectory E v g sg s)"
  by (simp add: histories_nonempty_def set_effect)

lemma set_finite:
  "is_Num v \<Longrightarrow> is_Num g \<Longrightarrow> is_Num sg \<Longrightarrow>
   finite_command (setCommandTrajectory E v g sg s)"
  by (simp add: finite_command_def set_effect)

lemma fresh_nonempty: "histories_nonempty fresh"
  by (simp add: fresh_def create_nonempty)

lemma fresh_finite: "finite_command fresh"
  by (simp add: fresh_def create_finite)

lemma slowed_nonempty: "histories_nonempty slowed"
  by (simp add: slowed_def set_nonempty fresh_nonempty)

lemma slowed_finite: "finite_command slowed"
  by (simp add: slowed_def set_finite)

lemma fresh_fields:
  "Vehicle fresh = C130" "K_Tp fresh = 8/100" "K_Ti fresh = 2/1000" "K_Lp fresh = 1/2"
  "K_Li fresh = 1/100" "K_mu_p fresh = 75/1000" "dt fresh = 1/100" "time fresh = [0]"
  "v_BN_W fresh = [1760/3]" "h fresh = [0]" "gamma fresh = [0]" "sigma fresh = [0]"
  "mass fresh = [9375]" "airspeed fresh = [1760/3]" "xT fresh = 0" "xL fresh = 0"
  "Tc fresh = 0" "Lc fresh = 0" "Thrust fresh = [0]" "Lift fresh = [0]" "mu fresh = [0]"
  "out fresh = []"
  "cmd_v_BN_W (command fresh) = Num (1760/3)" "cmd_gamma (command fresh) = Num 0"
  "cmd_sigma (command fresh) = Num 0"
  by (simp_all add: fresh_def create_fields TF0_def init_cond_def utils0_def userCommand_init_def)

lemma slowed_fields:
  "Vehicle slowed = C130" "K_Tp slowed = 8/100" "K_Ti slowed = 2/1000" "K_Lp slowed = 1/2"
  "K_Li slowed = 1/100" "K_mu_p slowed = 75/1000" "dt slowed = 1/100" "time slowed = [0]"
  "v_BN_W slowed = [1760/3]" "h slowed = [0]" "gamma slowed = [0]" "sigma slowed = [0]"
  "mass slowed = [9375]" "airspeed slowed = [1760/3]" "xT slowed = 0" "xL slowed = 0"
  "Tc slowed = 0" "Lc slowed = 0" "Thrust slowed = [0]" "Lift slowed = [0]" "mu slowed = [0]"
  "out slowed = []"
  "cmd_v_BN_W (command slowed) = Num 500" "cmd_gamma (command slowed) = Num 0"
  "cmd_sigma (command slowed) = Num 0"
  "V_err slowed = Num (- (260/3))" "hdot_err slowed = Num 0" "sigma_err slowed = Num 0"
  by (simp_all add: slowed_def set_effect fresh_fields lift2_def lift1_def)

lemma C130_fields:
  "T_max C130 = 72000" "omega_T C130 = 2" "omega_L C130 = 5/2" "K_Lmax C130 = 26/10"
  "mu_max C130 = 30 * (pi/180)" "Kf C130 = 4/1000000"
  by (simp_all add: C130_def)

lemma utils0_fields:
  "const_gravity utils0 = 32" "solve_ivp utils0 = rk45_solve one_step"
  "wind_vector utils0 = (\<lambda>v g sg. v)"
  by (simp_all add: utils0_def)

subsection \<open>Commanding a trajectory\<close>

text \<open>
  C5: setCommandTrajectory stores the three commanded values, recomputes the commanded
  airspeed from them, and recomputes the three error terms against the last committed
  state: velocity error = commanded velocity - last inertial velocity, climb-rate error =
  commanded velocity * (sin(commanded gamma) - sin(last gamma)), heading error = commanded
  sigma - last sigma (in float arithmetic, so an error term is NaN when a value it is
  computed from is NaN). No actuator output, clock or history moves: the command acts only
  through the next step.
\<close>

theorem C5_setCommandTrajectory_errors:
  assumes "histories_nonempty s"
  shows "cmd_v_BN_W (command (setCommandTrajectory E v g sg s)) = v \<and>
     cmd_gamma (command (setCommandTrajectory E v g sg s)) = g \<and>
     cmd_sigma (command (setCommandTrajectory E v g sg s)) = sg \<and>
     cmd_airspeed (command (setCommandTrajectory E v g sg s)) = lift3 (wind_vector E) v g sg \<and>
     V_err (setCommandTrajectory E v g sg s) = lift2 (-) v (Num (last (v_BN_W s))) \<and>
     hdot_err (setCommandTrajectory E v g sg s)
       = lift2 (*) v (lift2 (-) (lift1 sin g) (Num (sin (last (gamma s))))) \<and>
     sigma_err (setCommandTrajectory E v g sg s) = lift2 (-) sg (Num (last (sigma s))) \<and>
     cmd_airspeed (command (setCommandTrajectory E (Num x) (Num y) (Num z) s))
       = Num (wind_vector E x y z) \<and>
     V_err (setCommandTrajectory E (Num x) (Num y) (Num z) s)
       = Num (x - last (v_BN_W s)) \<and>
     hdot_err (setCommandTrajectory E (Num x) (Num y) (Num z) s)
       = Num (x * (sin y - sin (last (gamma s)))) \<and>
     sigma_err (setCommandTrajectory E (Num x) (Num y) (Num z) s)
       = Num (z - last (sigma s)) \<and>
     time (setCommandTrajectory E v g sg s) = time s \<and>
     Thrust (setCommandTrajectory E v g sg s) = Thrust s \<and>
     Lift (setCommandTrajectory E v g sg s) = Lift s \<and>
     mu (setCommandTrajectory E v g sg s) = mu s \<and>
     v_BN_W (setCommandTrajectory E v g sg s) = v_BN_W s \<and>
     gamma (setCommandTrajectory E v g sg s) = gamma s \<and>
     sigma (setCommandTrajectory E v g sg s) = sigma s"
  unfolding set_effect by (simp add: lift1_def lift2_def lift3_def)

theorem C5_witness:
  "histories_nonempty fresh \<and>
   V_err (setCommandTrajectory utils0 (Num 500) (Num 0) (Num 0) fresh) = Num (- (260/3)) \<and>
   hdot_err (setCommandTrajectory utils0 (Num 500) (Num 0) (Num 0) fresh) = Num 0 \<and>
   sigma_err (setCommandTrajectory utils0 (Num 500) (Num 0) (Num 0) fresh) = Num 0 \<and>
   cmd_airspeed (command (setCommandTrajectory utils0 (Num 500) (Num 0) (Num 0) fresh))
     = Num 500"
  using C5_setCommandTrajectory_errors[OF fresh_nonempty,
      where E=utils0 and x=500 and y=0 and z=0 and v=Np_nan and g=Np_nan and sg=Np_nan]
  by (simp add: fresh_nonempty fresh_fields utils0_fields)

subsection \<open>The thrust loop\<close>

lemma thrust_values:
  fixes E :: env and d :: real and s :: guidance
  shows "V_err (thrustGuidanceSystem E d s)
           = lift2 (-) (cmd_v_BN_W (command s)) (Num (last (v_BN_W s)))"
    and "xT (thrustGuidanceSystem E d s)
           = last (solve_ivp E
                    (\<lambda>t y. [last (mass s) * num (V_err (thrustGuidanceSystem E d s))])
                    (last (time s)) (last (time s) + d) [xT s])"
    and "Tc (thrustGuidanceSystem E d s)
           = (if K_Ti s * xT (thrustGuidanceSystem E d s)
                   + K_Tp s * last (mass s) * num (V_err (thrustGuidanceSystem E d s))
                 > T_max (Vehicle s)
              then T_max (Vehicle s)
              else K_Ti s * xT (thrustGuidanceSystem E d s)
                   + K_Tp s * last (mass s) * num (V_err (thrustGuidanceSystem E d s)))"
    and "Thrust (thrustGuidanceSystem E d s)
           = Thrust s @
             [min (last (solve_ivp E
                     (\<lambda>t y. map (\<lambda>T. - 1 * omega_T (Vehicle s) * T
                                       + omega_T (Vehicle s) * Tc (thrustGuidanceSystem E d s)) y)
                     (last (time s)) (last (time s) + d) [last (Thrust s)]))
                  (T_max (Vehicle s))]"
  by (rule thrust_cases[where s=s and E=E and d=d]; simp add: min_def)+

lemma finite_the:
  "finite_command s \<Longrightarrow>
   lift2 (-) (cmd_v_BN_W (command s)) (Num x) = Num (num (cmd_v_BN_W (command s)) - x) \<and>
   lift2 (-) (cmd_sigma (command s)) (Num z) = Num (num (cmd_sigma (command s)) - z) \<and>
   lift2 (*) (cmd_v_BN_W (command s)) (lift2 (-) (lift1 sin (cmd_gamma (command s))) (Num y))
     = Num (num (cmd_v_BN_W (command s)) * (sin (num (cmd_gamma (command s))) - y))"
  by (cases "cmd_v_BN_W (command s)"; cases "cmd_gamma (command s)";
      cases "cmd_sigma (command s)")
     (simp_all add: finite_command_def lift2_def lift1_def)

text \<open>
  C4: in the thrust loop the velocity error is the commanded velocity minus the last
  committed inertial velocity, and the thrust command is
  Tc = K_Ti * xT + K_Tp * mass * V_err with the integral memory xT just updated, replaced by
  T_max when it exceeds T_max and left as it is otherwise: there is no lower limit, so a
  command below zero (and at most T_max) is kept.
\<close>

theorem C4_thrust_command:
  assumes "histories_nonempty s" and "finite_command s"
  shows "V_err (thrustGuidanceSystem E d s)
           = Num (num (cmd_v_BN_W (command s)) - last (v_BN_W s)) \<and>
         Tc (thrustGuidanceSystem E d s)
           = (if K_Ti s * xT (thrustGuidanceSystem E d s)
                   + K_Tp s * last (mass s) * (num (cmd_v_BN_W (command s)) - last (v_BN_W s))
                 > T_max (Vehicle s)
              then T_max (Vehicle s)
              else K_Ti s * xT (thrustGuidanceSystem E d s)
                   + K_Tp s * last (mass s) * (num (cmd_v_BN_W (command s)) - last (v_BN_W s))) \<and>
         (K_Ti s * xT (thrustGuidanceSystem E d s)
            + K_Tp s * last (mass s) * (num (cmd_v_BN_W (command s)) - last (v_BN_W s))
            \<le> T_max (Vehicle s) \<longrightarrow>
          Tc (thrustGuidanceSystem E d s)
            = K_Ti s * xT (thrustGuidanceSystem E d s)
              + K_Tp s * last (mass s) * (num (cmd_v_BN_W (command s)) - last (v_BN_W s)))"
proof -
  have ve: "V_err (thrustGuidanceSystem E d s)
              = Num (num (cmd_v_BN_W (command s)) - last (v_BN_W s))"
    using assms(2) by (simp add: thrust_values(1) finite_the)
  show ?thesis
    using thrust_values(3)[of E d s] by (simp add: ve)
qed

lemma slowed_thrust_xT: "xT (thrustGuidanceSystem utils0 (1/100) slowed) = - 8125"
proof -
  have ve: "V_err (thrustGuidanceSystem utils0 (1/100) slowed) = Num (- (260/3))"
    by (simp add: thrust_values(1) slowed_fields lift2_def)
  show ?thesis
    by (simp add: thrust_values(2)[of utils0 "1/100" slowed] ve slowed_fields utils0_fields
        exact_scalar[OF rk45_exact[OF covers_one_step]])
qed

theorem C4_witness:
  "histories_nonempty slowed \<and> finite_command slowed \<and>
   Tc (thrustGuidanceSystem utils0 (1/100) slowed) = - (260065/4)"
  using C4_thrust_command[OF slowed_nonempty slowed_finite, of utils0 "1/100"]
  by (simp add: slowed_nonempty slowed_finite slowed_thrust_xT slowed_fields C130_fields)

subsection \<open>The bank loop\<close>

lemma saturate_bounds:
  fixes m :: real
  assumes "0 \<le> b"
  shows "\<bar>if \<bar>m\<bar> > b then sgn m * b else m\<bar> \<le> b"
    and "0 \<le> (if \<bar>m\<bar> > b then sgn m * b else m) * m"
  using assms
  by (auto simp: sgn_if abs_if mult_nonneg_nonpos mult_nonpos_nonpos
      split: if_splits)

text \<open>
  C6: the bank loop is proportional only. With m = K_mu_p * (commanded velocity / g) *
  heading error, where the heading error is the commanded heading minus the last committed
  heading, the loop appends sign(m) * mu_max when |m| exceeds mu_max and m otherwise; for
  mu_max >= 0 the appended value lies in [-mu_max, mu_max] and has the sign of m. The loop
  leaves both integrator memories and the thrust and lift histories alone, integrates
  nothing (its result is the same for every solver and every step size), and does not read
  omega_mu.
\<close>

theorem C6_bank_angle:
  assumes "histories_nonempty s" and "finite_command s"
  shows "sigma_err (headingGuidanceSystem E d s)
           = Num (num (cmd_sigma (command s)) - last (sigma s)) \<and>
         mu (headingGuidanceSystem E d s)
           = mu s @
             [if \<bar>K_mu_p s * (num (cmd_v_BN_W (command s)) / const_gravity E)
                   * (num (cmd_sigma (command s)) - last (sigma s))\<bar> > mu_max (Vehicle s)
              then sgn (K_mu_p s * (num (cmd_v_BN_W (command s)) / const_gravity E)
                          * (num (cmd_sigma (command s)) - last (sigma s))) * mu_max (Vehicle s)
              else K_mu_p s * (num (cmd_v_BN_W (command s)) / const_gravity E)
                     * (num (cmd_sigma (command s)) - last (sigma s))] \<and>
         (0 \<le> mu_max (Vehicle s) \<longrightarrow>
            \<bar>last (mu (headingGuidanceSystem E d s))\<bar> \<le> mu_max (Vehicle s) \<and>
            0 \<le> last (mu (headingGuidanceSystem E d s))
                  * (K_mu_p s * (num (cmd_v_BN_W (command s)) / const_gravity E)
                       * (num (cmd_sigma (command s)) - last (sigma s)))) \<and>
         xT (headingGuidanceSystem E d s) = xT s \<and>
         xL (headingGuidanceSystem E d s) = xL s \<and>
         Thrust (headingGuidanceSystem E d s) = Thrust s \<and>
         Lift (headingGuidanceSystem E d s) = Lift s \<and>
         headingGuidanceSystem (E\<lparr>solve_ivp := f\<rparr>) d' s = headingGuidanceSystem E d s \<and>
         headingGuidanceSystem E d (s\<lparr>Vehicle := (Vehicle s)\<lparr>omega_mu := w\<rparr>\<rparr>)
           = (headingGuidanceSystem E d s)\<lparr>Vehicle := (Vehicle s)\<lparr>omega_mu := w\<rparr>\<rparr>"
proof -
  define m where "m = K_mu_p s * (num (cmd_v_BN_W (command s)) / const_gravity E)
                        * (num (cmd_sigma (command s)) - last (sigma s))"
  have se: "lift2 (-) (cmd_sigma (command s)) (Num (last (sigma s)))
              = Num (num (cmd_sigma (command s)) - last (sigma s))"
    using assms(2) by (simp add: finite_the)
  have eff: "headingGuidanceSystem E d s =
     s\<lparr>sigma_err := Num (num (cmd_sigma (command s)) - last (sigma s)),
       out := (if \<bar>m\<bar> > mu_max (Vehicle s) then out s @ [BankExceeds m (mu_max (Vehicle s))]
               else out s),
       mu := mu s @ [if \<bar>m\<bar> > mu_max (Vehicle s) then sgn m * mu_max (Vehicle s) else m]\<rparr>"
    unfolding heading_effect se m_def by simp
  have eff': "headingGuidanceSystem (E\<lparr>solve_ivp := f\<rparr>) d' s = headingGuidanceSystem E d s"
    by (simp add: heading_effect)
  have eff'': "headingGuidanceSystem E d (s\<lparr>Vehicle := (Vehicle s)\<lparr>omega_mu := w\<rparr>\<rparr>)
           = (headingGuidanceSystem E d s)\<lparr>Vehicle := (Vehicle s)\<lparr>omega_mu := w\<rparr>\<rparr>"
    by (simp add: heading_effect)
  have mu: "mu (headingGuidanceSystem E d s)
      = mu s @ [if \<bar>m\<bar> > mu_max (Vehicle s) then sgn m * mu_max (Vehicle s) else m]"
    by (simp add: eff)
  have bounds: "0 \<le> mu_max (Vehicle s) \<longrightarrow>
            \<bar>last (mu (headingGuidanceSystem E d s))\<bar> \<le> mu_max (Vehicle s) \<and>
            0 \<le> last (mu (headingGuidanceSystem E d s)) * m"
    unfolding mu using saturate_bounds[of "mu_max (Vehicle s)" m] by simp
  have rest: "sigma_err (headingGuidanceSystem E d s)
           = Num (num (cmd_sigma (command s)) - last (sigma s))"
    "xT (headingGuidanceSystem E d s) = xT s" "xL (headingGuidanceSystem E d s) = xL s"
    "Thrust (headingGuidanceSystem E d s) = Thrust s"
    "Lift (headingGuidanceSystem E d s) = Lift s"
    by (simp_all add: eff)
  show ?thesis
    using mu bounds rest eff' eff'' unfolding m_def by blast
qed

theorem C6_witness:
  "histories_nonempty (setCommandTrajectory utils0 (Num 500) (Num 0) (Num 3) fresh) \<and>
   finite_command (setCommandTrajectory utils0 (Num 500) (Num 0) (Num 3) fresh) \<and>
   mu (headingGuidanceSystem utils0 (1/100)
         (setCommandTrajectory utils0 (Num 500) (Num 0) (Num 3) fresh))
     = [0, 30 * (pi / 180)]"
proof -
  define s where "s = setCommandTrajectory utils0 (Num 500) (Num 0) (Num 3) fresh"
  have ne: "histories_nonempty s" and fin: "finite_command s"
    by (simp_all add: s_def set_nonempty fresh_nonempty set_finite)
  have f: "K_mu_p s = 75/1000" "cmd_v_BN_W (command s) = Num 500"
    "cmd_sigma (command s) = Num 3" "sigma s = [0]" "mu s = [0]" "Vehicle s = C130"
    by (simp_all add: s_def set_effect fresh_fields)
  have "pi < 4" by (rule pi_less_4)
  then show ?thesis
    using C6_bank_angle[OF ne fin, of utils0 "1/100"] ne fin
    unfolding s_def[symmetric] by (simp add: f utils0_fields C130_fields)
qed

subsection \<open>One step, field by field\<close>

lemma step_guidance_fields:
  fixes E :: env and s :: guidance and dto :: "real option"
  defines "g \<equiv> getGuidanceCommands E (Some (case dto of None \<Rightarrow> dt s | Some x \<Rightarrow> x)) s"
  shows "Thrust (stepTime E dto s) = Thrust g" "Lift (stepTime E dto s) = Lift g"
    "mu (stepTime E dto s) = mu g" "alpha_c (stepTime E dto s) = alpha_c g"
    "h_c (stepTime E dto s) = h_c g" "V_err (stepTime E dto s) = V_err g"
    "hdot_err (stepTime E dto s) = hdot_err g" "sigma_err (stepTime E dto s) = sigma_err g"
    "xT (stepTime E dto s) = xT g" "xL (stepTime E dto s) = xL g"
    "Tc (stepTime E dto s) = Tc g" "Lc (stepTime E dto s) = Lc g"
    "out (stepTime E dto s) = out g" "Vehicle (stepTime E dto s) = Vehicle g"
    "dt (stepTime E dto s) = dt g"
  by (simp_all add: stepTime_eq eom_frame g_def)

lemma guidance_frame:
  fixes E :: env and s :: guidance
  shows "Vehicle (getGuidanceCommands E dto s) = Vehicle s"
    "dt (getGuidanceCommands E dto s) = dt s"
    "time (getGuidanceCommands E dto s) = time s"
    "mass (getGuidanceCommands E dto s) = mass s"
    "v_BN_W (getGuidanceCommands E dto s) = v_BN_W s"
    "gamma (getGuidanceCommands E dto s) = gamma s"
    "sigma (getGuidanceCommands E dto s) = sigma s"
    "lat (getGuidanceCommands E dto s) = lat s"
    "lon (getGuidanceCommands E dto s) = lon s"
    "h (getGuidanceCommands E dto s) = h s"
    "airspeed (getGuidanceCommands E dto s) = airspeed s"
    "alpha (getGuidanceCommands E dto s) = alpha s"
    "drag (getGuidanceCommands E dto s) = drag s"
    "command (getGuidanceCommands E dto s) = command s"
    "K_Tp (getGuidanceCommands E dto s) = K_Tp s"
    "K_Ti (getGuidanceCommands E dto s) = K_Ti s"
    "K_Lp (getGuidanceCommands E dto s) = K_Lp s"
    "K_Li (getGuidanceCommands E dto s) = K_Li s"
    "K_mu_p (getGuidanceCommands E dto s) = K_mu_p s"
  by (cases "np_nan_commanded s";
      simp add: guidance_runs guidance_nan heading_frame lift_frame thrust_frame)+

lemma guidance_outputs_runs:
  fixes E :: env and s :: guidance
  assumes "\<not> np_nan_commanded s"
  obtains th lf m where
    "Thrust (getGuidanceCommands E dto s)
       = Thrust s @ [if th > T_max (Vehicle s) then T_max (Vehicle s) else th]"
    "Lift (getGuidanceCommands E dto s)
       = Lift s @ [if lf > (last (v_BN_W s))\<^sup>2 * K_Lmax (Vehicle s)
                   then (last (v_BN_W s))\<^sup>2 * K_Lmax (Vehicle s) else lf]"
    "mu (getGuidanceCommands E dto s)
       = mu s @ [if \<bar>m\<bar> > mu_max (Vehicle s) then sgn m * mu_max (Vehicle s) else m]"
proof -
  define d where "d = (case dto of None \<Rightarrow> dt s | Some x \<Rightarrow> x)"
  define s1 where "s1 = thrustGuidanceSystem E d s"
  define s2 where "s2 = liftGuidanceSystem E d s1"
  have g: "getGuidanceCommands E dto s = headingGuidanceSystem E d s2"
    using assms by (simp add: guidance_runs d_def s1_def s2_def)
  obtain th where th: "Thrust s1
       = Thrust s @ [if th > T_max (Vehicle s) then T_max (Vehicle s) else th]"
    unfolding s1_def by (rule thrust_Thrust)
  obtain lf where "Lift s2
       = Lift s1 @ [if lf > (last (v_BN_W s1))\<^sup>2 * K_Lmax (Vehicle s1)
                    then (last (v_BN_W s1))\<^sup>2 * K_Lmax (Vehicle s1) else lf]"
    unfolding s2_def by (rule lift_Lift)
  then have lf: "Lift s2
       = Lift s @ [if lf > (last (v_BN_W s))\<^sup>2 * K_Lmax (Vehicle s)
                   then (last (v_BN_W s))\<^sup>2 * K_Lmax (Vehicle s) else lf]"
    by (simp add: s1_def thrust_frame)
  define m where "m = K_mu_p s2 * (num (cmd_v_BN_W (command s2)) / const_gravity E)
                        * num (lift2 (-) (cmd_sigma (command s2)) (Num (last (sigma s2))))"
  have "mu (headingGuidanceSystem E d s2)
          = mu s2 @ [if \<bar>m\<bar> > mu_max (Vehicle s2) then sgn m * mu_max (Vehicle s2) else m]"
    by (simp add: heading_effect m_def)
  then have m: "mu (headingGuidanceSystem E d s2)
          = mu s @ [if \<bar>m\<bar> > mu_max (Vehicle s) then sgn m * mu_max (Vehicle s) else m]"
    by (simp add: s2_def s1_def lift_frame thrust_frame)
  have "Thrust (headingGuidanceSystem E d s2) = Thrust s1"
    "Lift (headingGuidanceSystem E d s2) = Lift s2"
    by (simp_all add: heading_frame s2_def lift_frame)
  then show ?thesis
    using that[of th lf m] th lf m unfolding g by simp
qed

lemma guidance_outputs:
  fixes E :: env and s :: guidance
  assumes "finite_command s"
  obtains th lf m where
    "Thrust (getGuidanceCommands E dto s)
       = Thrust s @ [if th > T_max (Vehicle s) then T_max (Vehicle s) else th]"
    "Lift (getGuidanceCommands E dto s)
       = Lift s @ [if lf > (last (v_BN_W s))\<^sup>2 * K_Lmax (Vehicle s)
                   then (last (v_BN_W s))\<^sup>2 * K_Lmax (Vehicle s) else lf]"
    "mu (getGuidanceCommands E dto s)
       = mu s @ [if \<bar>m\<bar> > mu_max (Vehicle s) then sgn m * mu_max (Vehicle s) else m]"
  by (rule guidance_outputs_runs[OF finite_not_nan[OF assms], of E dto]) (rule that; assumption)

subsection \<open>Saturation\<close>

lemma slowed_thrust:
  "Thrust (thrustGuidanceSystem utils0 (1/100) slowed)
     = [0, - (9655560049638737 / 7500000000000)]"
proof -
  have ve: "V_err (thrustGuidanceSystem utils0 (1/100) slowed) = Num (- (260/3))"
    by (simp add: thrust_values(1) slowed_fields lift2_def)
  have tc: "Tc (thrustGuidanceSystem utils0 (1/100) slowed) = - (260065/4)"
    by (simp add: thrust_values(3)[of utils0 "1/100" slowed] ve slowed_thrust_xT slowed_fields
        C130_fields)
  have "rk45_solve one_step (\<lambda>t y. map (\<lambda>T. - 1 * 2 * T + 2 * (- (260065/4))) y) 0 (1/100) [0]
          = [- (9655560049638737 / 7500000000000)]"
    by (simp add: rk45_solve_def one_step_def rk45_step_def rk_stage_def Let_def)
  then show ?thesis
    by (simp add: thrust_values(4)[of utils0 "1/100" slowed] tc slowed_fields C130_fields
        utils0_fields)
qed

lemma step_slowed_Thrust:
  "Thrust (stepTime utils0 None slowed) = [0, - (9655560049638737 / 7500000000000)]"
  using slowed_finite
  by (simp add: step_guidance_fields guidance_finite heading_frame lift_frame slowed_fields
      slowed_thrust)

text \<open>
  C1, as stated, fails on the lower bound of the thrust: no loop clamps at zero. The driver's
  aircraft, commanded to slow from 586.7 ft/s to 500 ft/s, has a negative thrust after one
  step.
\<close>

theorem C1_counterexample:
  "\<not> (0 \<le> last (Thrust (stepTime utils0 None slowed)))"
  by (simp add: step_slowed_Thrust)

text \<open>
  C1, amended: a step whose guidance laws run (no commanded value is NaN) appends one
  thrust, one lift and one bank angle, each clamped from above: the thrust is the lag
  filter's output or T_max when that is larger, so at most T_max; the lift is the lag
  filter's output or L_max when that is larger, so at most L_max = v^2 * K_Lmax with v the
  inertial velocity committed before the step; the bank angle is m, or sign(m) * mu_max when
  |m| exceeds mu_max, so |bank angle| <= mu_max for mu_max >= 0. Earlier entries are
  untouched, and nothing is rejected. No lower bound is promised for thrust or lift.
\<close>

theorem C1_saturation:
  assumes "histories_nonempty s" and "finite_command s"
  shows "(\<exists>th lf m.
            Thrust (stepTime E dto s) = Thrust s @ [min th (T_max (Vehicle s))] \<and>
            Lift (stepTime E dto s)
              = Lift s @ [min lf ((last (v_BN_W s))\<^sup>2 * K_Lmax (Vehicle s))] \<and>
            mu (stepTime E dto s)
              = mu s @ [if \<bar>m\<bar> > mu_max (Vehicle s) then sgn m * mu_max (Vehicle s) else m]) \<and>
         last (Thrust (stepTime E dto s)) \<le> T_max (Vehicle s) \<and>
         last (Lift (stepTime E dto s)) \<le> (last (v_BN_W s))\<^sup>2 * K_Lmax (Vehicle s) \<and>
         (0 \<le> mu_max (Vehicle s) \<longrightarrow> \<bar>last (mu (stepTime E dto s))\<bar> \<le> mu_max (Vehicle s))"
proof -
  define d where "d = (case dto of None \<Rightarrow> dt s | Some x \<Rightarrow> x)"
  obtain th lf m where
    th: "Thrust (getGuidanceCommands E (Some d) s)
       = Thrust s @ [if th > T_max (Vehicle s) then T_max (Vehicle s) else th]"
    and lf: "Lift (getGuidanceCommands E (Some d) s)
       = Lift s @ [if lf > (last (v_BN_W s))\<^sup>2 * K_Lmax (Vehicle s)
                   then (last (v_BN_W s))\<^sup>2 * K_Lmax (Vehicle s) else lf]"
    and m: "mu (getGuidanceCommands E (Some d) s)
       = mu s @ [if \<bar>m\<bar> > mu_max (Vehicle s) then sgn m * mu_max (Vehicle s) else m]"
    using guidance_outputs[OF assms(2), of E "Some d"] by blast
  have T: "Thrust (stepTime E dto s) = Thrust s @ [min th (T_max (Vehicle s))]"
    by (simp add: step_guidance_fields th min_def flip: d_def)
  have L: "Lift (stepTime E dto s)
             = Lift s @ [min lf ((last (v_BN_W s))\<^sup>2 * K_Lmax (Vehicle s))]"
    by (simp add: step_guidance_fields lf min_def flip: d_def)
  have M: "mu (stepTime E dto s)
             = mu s @ [if \<bar>m\<bar> > mu_max (Vehicle s) then sgn m * mu_max (Vehicle s) else m]"
    by (simp add: step_guidance_fields m flip: d_def)
  have "last (Thrust (stepTime E dto s)) \<le> T_max (Vehicle s)"
    "last (Lift (stepTime E dto s)) \<le> (last (v_BN_W s))\<^sup>2 * K_Lmax (Vehicle s)"
    by (simp_all add: T L)
  moreover have "0 \<le> mu_max (Vehicle s) \<longrightarrow> \<bar>last (mu (stepTime E dto s))\<bar> \<le> mu_max (Vehicle s)"
    unfolding M using saturate_bounds(1)[of "mu_max (Vehicle s)" m] by simp
  ultimately show ?thesis
    using T L M by blast
qed

theorem C1_witness:
  "histories_nonempty slowed \<and> finite_command slowed \<and>
   last (Thrust (stepTime utils0 None slowed)) \<le> T_max (Vehicle slowed) \<and>
   last (Lift (stepTime utils0 None slowed))
     \<le> (last (v_BN_W slowed))\<^sup>2 * K_Lmax (Vehicle slowed) \<and>
   \<bar>last (mu (stepTime utils0 None slowed))\<bar> \<le> mu_max (Vehicle slowed)"
  using C1_saturation[OF slowed_nonempty slowed_finite, of utils0 None]
  by (simp add: slowed_nonempty slowed_finite slowed_fields C130_fields)

subsection \<open>History lengths\<close>

lemma step_time:
  fixes E :: env and s :: guidance and dto :: "real option"
  shows "time (stepTime E dto s)
           = time s @ [last (time s) + (case dto of None \<Rightarrow> dt s | Some x \<Rightarrow> x)]"
  by (simp add: stepTime_eq eom_frame guidance_frame)

lemma step_command:
  fixes E :: env and s :: guidance and dto :: "real option"
  shows "command (stepTime E dto s) = save_history (command s)"
  by (simp add: stepTime_eq eom_frame guidance_frame)

lemma step_finite: "finite_command (stepTime E dto s) = finite_command s"
  by (simp add: finite_command_def step_command save_history_def)

lemma guidance_lengths:
  fixes E :: env and s :: guidance
  assumes "finite_command s"
  shows "length (Thrust (getGuidanceCommands E dto s)) = Suc (length (Thrust s))"
    "length (Lift (getGuidanceCommands E dto s)) = Suc (length (Lift s))"
    "length (mu (getGuidanceCommands E dto s)) = Suc (length (mu s))"
    "butlast (Thrust (getGuidanceCommands E dto s)) = Thrust s"
    "butlast (Lift (getGuidanceCommands E dto s)) = Lift s"
    "butlast (mu (getGuidanceCommands E dto s)) = mu s"
  by (rule guidance_outputs[OF assms, of E dto], simp)+

lemma step_eom_lengths:
  fixes E :: env and s :: guidance and dto :: "real option"
  shows "length (mass (stepTime E dto s)) = Suc (length (mass s))"
    "length (alpha (stepTime E dto s)) = Suc (length (alpha s))"
    "length (drag (stepTime E dto s)) = Suc (length (drag s))"
    "length (v_BN_W (stepTime E dto s)) = Suc (length (v_BN_W s))"
    "length (gamma (stepTime E dto s)) = Suc (length (gamma s))"
    "length (sigma (stepTime E dto s)) = Suc (length (sigma s))"
    "length (airspeed (stepTime E dto s)) = Suc (length (airspeed s))"
    "length (lat (stepTime E dto s)) = Suc (length (lat s))"
    "length (lon (stepTime E dto s)) = Suc (length (lon s))"
    "length (h (stepTime E dto s)) = Suc (length (h s))"
    "butlast (mass (stepTime E dto s)) = mass s"
    "butlast (alpha (stepTime E dto s)) = alpha s"
    "butlast (drag (stepTime E dto s)) = drag s"
    "butlast (v_BN_W (stepTime E dto s)) = v_BN_W s"
    "butlast (gamma (stepTime E dto s)) = gamma s"
    "butlast (sigma (stepTime E dto s)) = sigma s"
    "butlast (airspeed (stepTime E dto s)) = airspeed s"
    "butlast (lat (stepTime E dto s)) = lat s"
    "butlast (lon (stepTime E dto s)) = lon s"
    "butlast (h (stepTime E dto s)) = h s"
  by (simp_all add: stepTime_eq eom_lengths eom_prefix guidance_frame)

lemma step_histories:
  assumes "finite_command s" and "histories_length n s"
  shows "histories_length (Suc n) (stepTime E dto s)"
  using assms(2)
  by (simp add: histories_length_def step_time step_eom_lengths step_guidance_fields
      guidance_lengths[OF assms(1)])

lemma step_extends:
  assumes "finite_command s"
  shows "histories_extend s (stepTime E dto s)"
  by (simp add: histories_extend_def step_time step_eom_lengths step_guidance_fields
      guidance_lengths[OF assms(1)])

lemma set_histories:
  "histories_length n s \<Longrightarrow> histories_length n (setCommandTrajectory E v g sg s)"
  by (simp add: histories_length_def set_effect)

lemma run_append: "run E (as @ bs) s = run E bs (run E as s)"
  by (induction as arbitrary: s) simp_all

lemma run_finite:
  "finite_command s \<Longrightarrow> list_all finite_action as \<Longrightarrow> finite_command (run E as s)"
proof (induction as arbitrary: s)
  case Nil
  then show ?case by simp
next
  case (Cons a as)
  have "finite_command (apply_action E a s)"
  proof (cases a)
    case (SetCommand v g sg)
    then show ?thesis
      using Cons.prems(2) by (auto simp: set_finite)
  next
    case (Step dto)
    then show ?thesis
      using Cons.prems(1) by (simp add: step_finite)
  qed
  then show ?case
    using Cons.IH Cons.prems(2) by simp
qed

lemma run_histories:
  "finite_command s \<Longrightarrow> list_all finite_action as \<Longrightarrow> histories_length n s \<Longrightarrow>
   histories_length (n + length (filter is_step as)) (run E as s)"
proof (induction as arbitrary: s n)
  case Nil
  then show ?case by simp
next
  case (Cons a as)
  show ?case
  proof (cases a)
    case (SetCommand v g sg)
    then have "finite_command (apply_action E a s)" "histories_length n (apply_action E a s)"
      using Cons.prems by (auto simp: set_finite set_histories)
    then show ?thesis
      using Cons.IH[of "apply_action E a s" n] Cons.prems(2) SetCommand by simp
  next
    case (Step dto)
    then have "finite_command (apply_action E a s)"
      "histories_length (Suc n) (apply_action E a s)"
      using Cons.prems by (simp_all add: step_finite step_histories)
    then show ?thesis
      using Cons.IH[of "apply_action E a s" "Suc n"] Cons.prems(2) Step by simp
  qed
qed

lemma nan_commanded_facts:
  "np_nan_commanded nan_commanded" "histories_length 1 nan_commanded"
  "Thrust nan_commanded = [0]" "out nan_commanded = []"
proof -
  show "np_nan_commanded nan_commanded"
    by (simp add: nan_commanded_def np_nan_commanded_def set_effect)
  show "histories_length 1 nan_commanded"
    unfolding nan_commanded_def fresh_def by (rule set_histories) (rule create_histories)
  show "Thrust nan_commanded = [0]" "out nan_commanded = []"
    by (simp_all add: nan_commanded_def set_effect fresh_fields)
qed

text \<open>
  C2, as stated, fails when a commanded value is np.nan: getGuidanceCommands returns before
  the loops append thrust, lift and bank angle, and the equations of motion still append
  the mass and the other state histories.
\<close>

theorem C2_counterexample:
  "length (mass (stepTime utils0 None nan_commanded)) = 2 \<and>
   length (Thrust (stepTime utils0 None nan_commanded)) = 1"
  using nan_commanded_facts(2)
  by (simp add: step_eom_lengths step_guidance_fields guidance_nan nan_commanded_facts
      histories_length_def)

text \<open>
  C2, amended: after construction, and after any sequence of commands and steps in which no
  commanded value is NaN, the fourteen histories (time, mass, inertial velocity, flight-path
  angle, heading, latitude, longitude, altitude, airspeed, angle of attack, drag, bank
  angle, thrust, lift) all have length = number of steps taken + 1, and a further step
  appends exactly one element to each of them.
\<close>

theorem C2_histories_equal_length:
  assumes "list_all finite_action as"
  shows "histories_length (1 + length (filter is_step as))
           (run E as (create E V TF IC t0 d)) \<and>
         histories_extend (run E as (create E V TF IC t0 d))
           (stepTime E dto (run E as (create E V TF IC t0 d)))"
proof -
  have fin: "finite_command (run E as (create E V TF IC t0 d))"
    using assms by (simp add: run_finite create_finite)
  show ?thesis
    using run_histories[OF create_finite assms create_histories, of E E V TF IC t0 d]
      step_extends[OF fin]
    by simp
qed

theorem C2_witness:
  "list_all finite_action [Step None, SetCommand (Num 500) (Num 0) (Num 0), Step (Some (1/50))] \<and>
   histories_length 3
     (run utils0 [Step None, SetCommand (Num 500) (Num 0) (Num 0), Step (Some (1/50))] fresh)"
proof -
  have a: "list_all finite_action
             [Step None, SetCommand (Num 500) (Num 0) (Num 0), Step (Some (1/50))]"
    by simp
  show ?thesis
    using C2_histories_equal_length[OF a, of utils0 C130 TF0 init_cond 0 "1/100" None]
    by (simp add: fresh_def numeral_3_eq_3)
qed

subsection \<open>The NaN guard\<close>

lemma loops_out:
  fixes E :: env and s :: guidance
  shows "(NoTrajectoryCommand \<in> set (out (thrustGuidanceSystem E d s)))
           = (NoTrajectoryCommand \<in> set (out s))"
    and "(NoTrajectoryCommand \<in> set (out (liftGuidanceSystem E d s)))
           = (NoTrajectoryCommand \<in> set (out s))"
    and "(NoTrajectoryCommand \<in> set (out (headingGuidanceSystem E d s)))
           = (NoTrajectoryCommand \<in> set (out s))"
    apply (rule thrust_cases[where s=s and E=E and d=d], simp)
   apply (rule lift_cases[where s=s and E=E and d=d], simp)
  apply (simp add: heading_effect)
  done

lemma guidance_lengths_runs:
  fixes E :: env and s :: guidance
  assumes "\<not> np_nan_commanded s"
  shows "length (Thrust (getGuidanceCommands E dto s)) = Suc (length (Thrust s))"
    "length (Lift (getGuidanceCommands E dto s)) = Suc (length (Lift s))"
    "length (mu (getGuidanceCommands E dto s)) = Suc (length (mu s))"
  by (rule guidance_outputs_runs[OF assms, of E dto], simp)+

text \<open>
  C8, as stated, fails: the constructor sets the commanded trajectory to the initial state,
  so a step taken before any setCommandTrajectory runs the guidance laws; it appends a
  thrust and prints no message.
\<close>

theorem C8_counterexample:
  "length (Thrust (stepTime utils0 None fresh)) = 2 \<and>
   NoTrajectoryCommand \<notin> set (out (stepTime utils0 None fresh))"
proof -
  have "length (Thrust (getGuidanceCommands utils0 (Some (1/100)) fresh)) = 2"
    using guidance_lengths(1)[OF fresh_finite, of utils0 "Some (1/100)"]
    by (simp add: fresh_fields)
  moreover have "NoTrajectoryCommand \<notin> set (out (getGuidanceCommands utils0 (Some (1/100)) fresh))"
    by (simp add: guidance_finite[OF fresh_finite] loops_out fresh_fields)
  ultimately show ?thesis
    by (simp add: step_guidance_fields fresh_fields)
qed

text \<open>
  C8, amended: whether a command has ever been set is not recorded. A new engine holds its
  initial state as the commanded trajectory, so the guidance laws run on its first step.
  The guidance evaluation is skipped exactly when one of the three commanded values is the
  object np.nan itself, which the test \<open>np.nan in [...]\<close> finds by identity: it then appends
  the message "no User Trajectory Command has been set" and changes nothing else, without
  raising. With any other commanded values, numbers or another NaN such as float('nan'), it
  runs the thrust, lift and heading loops in this order and prints no such message.
\<close>

theorem C8_nan_guard:
  "finite_command (create E V TF IC t0 d) \<and>
   \<not> np_nan_commanded (create E V TF IC t0 d) \<and>
   (np_nan_commanded s \<longrightarrow>
      getGuidanceCommands E dto s = s\<lparr>out := out s @ [NoTrajectoryCommand]\<rparr>) \<and>
   (\<not> np_nan_commanded s \<longrightarrow>
      getGuidanceCommands E dto s =
        headingGuidanceSystem E (case dto of None \<Rightarrow> dt s | Some x \<Rightarrow> x)
          (liftGuidanceSystem E (case dto of None \<Rightarrow> dt s | Some x \<Rightarrow> x)
             (thrustGuidanceSystem E (case dto of None \<Rightarrow> dt s | Some x \<Rightarrow> x) s)) \<and>
      (NoTrajectoryCommand \<in> set (out (getGuidanceCommands E dto s)))
        = (NoTrajectoryCommand \<in> set (out s)) \<and>
      length (Thrust (getGuidanceCommands E dto s)) = Suc (length (Thrust s)) \<and>
      length (Lift (getGuidanceCommands E dto s)) = Suc (length (Lift s)) \<and>
      length (mu (getGuidanceCommands E dto s)) = Suc (length (mu s)))"
proof -
  have skip: "np_nan_commanded s \<longrightarrow>
      getGuidanceCommands E dto s = s\<lparr>out := out s @ [NoTrajectoryCommand]\<rparr>"
    by (simp add: guidance_nan)
  have runs: "getGuidanceCommands E dto s =
        headingGuidanceSystem E (case dto of None \<Rightarrow> dt s | Some x \<Rightarrow> x)
          (liftGuidanceSystem E (case dto of None \<Rightarrow> dt s | Some x \<Rightarrow> x)
             (thrustGuidanceSystem E (case dto of None \<Rightarrow> dt s | Some x \<Rightarrow> x) s)) \<and>
      (NoTrajectoryCommand \<in> set (out (getGuidanceCommands E dto s)))
        = (NoTrajectoryCommand \<in> set (out s)) \<and>
      length (Thrust (getGuidanceCommands E dto s)) = Suc (length (Thrust s)) \<and>
      length (Lift (getGuidanceCommands E dto s)) = Suc (length (Lift s)) \<and>
      length (mu (getGuidanceCommands E dto s)) = Suc (length (mu s))"
    if n: "\<not> np_nan_commanded s"
  proof -
    have o: "(NoTrajectoryCommand \<in> set (out (getGuidanceCommands E dto s)))
        = (NoTrajectoryCommand \<in> set (out s))"
      by (simp add: guidance_runs[OF n] loops_out)
    show ?thesis
      using guidance_runs[OF n, of E dto] o guidance_lengths_runs[OF n, of E dto] by blast
  qed
  show ?thesis
    using create_finite[of E V TF IC t0 d] finite_not_nan[OF create_finite, of E V TF IC t0 d]
      skip runs
    by blast
qed

lemma nan_headed_facts:
  "\<not> np_nan_commanded nan_headed" "\<not> finite_command nan_headed" "mu nan_headed = [0]"
  "out nan_headed = []" "dt nan_headed = 1/100"
  by (simp_all add: nan_headed_def np_nan_commanded_def finite_command_def set_effect
      fresh_fields)

theorem C8_witness:
  "np_nan_commanded nan_commanded \<and>
   getGuidanceCommands utils0 None nan_commanded
     = nan_commanded\<lparr>out := [NoTrajectoryCommand]\<rparr> \<and>
   \<not> np_nan_commanded fresh \<and>
   NoTrajectoryCommand \<notin> set (out (getGuidanceCommands utils0 None fresh)) \<and>
   \<not> np_nan_commanded nan_headed \<and>
   getGuidanceCommands utils0 None nan_headed
     = headingGuidanceSystem utils0 (1/100)
         (liftGuidanceSystem utils0 (1/100) (thrustGuidanceSystem utils0 (1/100) nan_headed)) \<and>
   NoTrajectoryCommand \<notin> set (out (getGuidanceCommands utils0 None nan_headed)) \<and>
   length (mu (getGuidanceCommands utils0 None nan_headed)) = 2"
proof -
  have a: "getGuidanceCommands utils0 None nan_commanded
     = nan_commanded\<lparr>out := [NoTrajectoryCommand]\<rparr>"
    using C8_nan_guard[of utils0 C130 TF0 init_cond 0 "1/100" nan_commanded None]
    by (simp add: nan_commanded_facts)
  have f: "\<not> np_nan_commanded fresh"
    by (simp add: finite_not_nan fresh_finite)
  have b: "NoTrajectoryCommand \<notin> set (out (getGuidanceCommands utils0 None fresh))"
    using C8_nan_guard[of utils0 C130 TF0 init_cond 0 "1/100" fresh None] f
    by (simp add: fresh_fields loops_out)
  have c: "getGuidanceCommands utils0 None nan_headed
     = headingGuidanceSystem utils0 (1/100)
         (liftGuidanceSystem utils0 (1/100) (thrustGuidanceSystem utils0 (1/100) nan_headed))"
    "NoTrajectoryCommand \<notin> set (out (getGuidanceCommands utils0 None nan_headed))"
    using C8_nan_guard[of utils0 C130 TF0 init_cond 0 "1/100" nan_headed None]
    by (simp_all add: nan_headed_facts loops_out)
  have l: "length (mu (getGuidanceCommands utils0 None nan_headed)) = 2"
    using C8_nan_guard[of utils0 C130 TF0 init_cond 0 "1/100" nan_headed None,
        THEN conjunct2, THEN conjunct2, THEN conjunct2, THEN mp, OF nan_headed_facts(1),
        THEN conjunct2]
    by (simp add: nan_headed_facts)
  show ?thesis
    using a b c l f nan_commanded_facts(1) nan_headed_facts(1) by blast
qed

subsection \<open>The lift loop\<close>

lemma lift_values:
  fixes E :: env and d :: real and s :: guidance
  shows "hdot_err (liftGuidanceSystem E d s)
           = lift2 (*) (cmd_v_BN_W (command s))
               (lift2 (-) (lift1 sin (cmd_gamma (command s))) (Num (sin (last (gamma s)))))"
    and "xL (liftGuidanceSystem E d s)
           = last (solve_ivp E
                    (\<lambda>t y. [last (mass s) * num (hdot_err (liftGuidanceSystem E d s))])
                    (last (time s)) (last (time s) + d) [xL s])"
    and "h_c (liftGuidanceSystem E d s)
           = h_c s @ [sin (num (cmd_gamma (command s))) * num (cmd_v_BN_W (command s))
                        * (last (time s) + d) + hd (h s)]"
  by (rule lift_cases[where s=s and E=E and d=d]; simp)+

subsection \<open>The order of a step\<close>

lemma guidance_errors:
  fixes E :: env and s :: guidance
  assumes "finite_command s"
  shows "V_err (getGuidanceCommands E dto s)
           = Num (num (cmd_v_BN_W (command s)) - last (v_BN_W s))"
    and "hdot_err (getGuidanceCommands E dto s)
           = Num (num (cmd_v_BN_W (command s))
                     * (sin (num (cmd_gamma (command s))) - sin (last (gamma s))))"
    and "sigma_err (getGuidanceCommands E dto s)
           = Num (num (cmd_sigma (command s)) - last (sigma s))"
    and "h_c (getGuidanceCommands E dto s)
           = h_c s @ [sin (num (cmd_gamma (command s))) * num (cmd_v_BN_W (command s))
                        * (last (time s) + (case dto of None \<Rightarrow> dt s | Some x \<Rightarrow> x))
                      + hd (h s)]"
proof -
  define d where "d = (case dto of None \<Rightarrow> dt s | Some x \<Rightarrow> x)"
  define s1 where "s1 = thrustGuidanceSystem E d s"
  define s2 where "s2 = liftGuidanceSystem E d s1"
  have g: "getGuidanceCommands E dto s = headingGuidanceSystem E d s2"
    using assms by (simp add: guidance_finite d_def s1_def s2_def)
  have fin1: "finite_command s1" and fin2: "finite_command s2"
    using assms by (simp_all add: finite_command_def s2_def s1_def lift_frame thrust_frame)
  have "V_err (headingGuidanceSystem E d s2) = V_err s1"
    by (simp add: heading_frame s2_def lift_frame)
  also have "\<dots> = Num (num (cmd_v_BN_W (command s)) - last (v_BN_W s))"
    using assms by (simp add: s1_def thrust_values(1) finite_the)
  finally show "V_err (getGuidanceCommands E dto s)
           = Num (num (cmd_v_BN_W (command s)) - last (v_BN_W s))"
    unfolding g .
  have "hdot_err (headingGuidanceSystem E d s2) = hdot_err s2"
    by (simp add: heading_frame)
  also have "\<dots> = Num (num (cmd_v_BN_W (command s1))
                     * (sin (num (cmd_gamma (command s1))) - sin (last (gamma s1))))"
    using fin1 by (simp add: s2_def lift_values(1) finite_the)
  also have "\<dots> = Num (num (cmd_v_BN_W (command s))
                     * (sin (num (cmd_gamma (command s))) - sin (last (gamma s))))"
    by (simp add: s1_def thrust_frame)
  finally show "hdot_err (getGuidanceCommands E dto s)
           = Num (num (cmd_v_BN_W (command s))
                     * (sin (num (cmd_gamma (command s))) - sin (last (gamma s))))"
    unfolding g .
  have "sigma_err (headingGuidanceSystem E d s2)
          = Num (num (cmd_sigma (command s2)) - last (sigma s2))"
    using fin2 by (simp add: heading_effect finite_the)
  also have "\<dots> = Num (num (cmd_sigma (command s)) - last (sigma s))"
    by (simp add: s2_def s1_def lift_frame thrust_frame)
  finally show "sigma_err (getGuidanceCommands E dto s)
           = Num (num (cmd_sigma (command s)) - last (sigma s))"
    unfolding g .
  have "h_c (headingGuidanceSystem E d s2) = h_c s2"
    by (simp add: heading_frame)
  also have "\<dots> = h_c s1 @ [sin (num (cmd_gamma (command s1))) * num (cmd_v_BN_W (command s1))
                        * (last (time s1) + d) + hd (h s1)]"
    by (simp add: s2_def lift_values(3))
  also have "\<dots> = h_c s @ [sin (num (cmd_gamma (command s))) * num (cmd_v_BN_W (command s))
                        * (last (time s) + d) + hd (h s)]"
    by (simp add: s1_def thrust_frame)
  finally show "h_c (getGuidanceCommands E dto s)
           = h_c s @ [sin (num (cmd_gamma (command s))) * num (cmd_v_BN_W (command s))
                        * (last (time s) + (case dto of None \<Rightarrow> dt s | Some x \<Rightarrow> x))
                      + hd (h s)]"
    unfolding g d_def .
qed

lemma step_mass:
  fixes E :: env and s :: guidance and dto :: "real option"
  shows "mass (stepTime E dto s)
     = mass s @
       [last (solve_ivp E
          (\<lambda>t y. [- 1 * Kf (Vehicle s) * last (Thrust (stepTime E dto s))])
          (last (time s)) (last (time s) + (case dto of None \<Rightarrow> dt s | Some x \<Rightarrow> x))
          [last (mass s)])]"
  by (simp add: step_guidance_fields) (simp add: stepTime_eq eom_mass guidance_frame)

text \<open>
  C9: every step goes through its sub-stages in the order guidance laws, equations of
  motion, commanded-trajectory history, clock: the equations of motion integrate the mass
  with the last thrust the guidance stage left, over the span that starts at the clock
  before it is advanced; after that the commanded values are appended to the command
  history, and last the clock gets its new entry t + dt. When the guidance laws run (no
  commanded value is NaN) they append one thrust, and the error terms they use, and leave
  in the engine, are computed from the commanded values and the velocity, flight-path angle
  and heading that were last committed before the step, and the commanded altitude from
  the clock before it is advanced; no value produced by the integrator enters them.
\<close>

theorem C9_step_order:
  assumes "histories_nonempty s"
  shows "stepTime E dto s =
           (getEquationsOfMotion_Ideal E (Some (case dto of None \<Rightarrow> dt s | Some x \<Rightarrow> x))
              (getGuidanceCommands E (Some (case dto of None \<Rightarrow> dt s | Some x \<Rightarrow> x)) s))
           \<lparr>command := save_history (command s),
             time := time s @ [last (time s) + (case dto of None \<Rightarrow> dt s | Some x \<Rightarrow> x)]\<rparr> \<and>
         mass (stepTime E dto s)
           = mass s @
             [last (solve_ivp E
                (\<lambda>t y. [- 1 * Kf (Vehicle s) * last (Thrust (stepTime E dto s))])
                (last (time s)) (last (time s) + (case dto of None \<Rightarrow> dt s | Some x \<Rightarrow> x))
                [last (mass s)])] \<and>
         v_BN_W_history (command (stepTime E dto s))
           = v_BN_W_history (command s) @ [cmd_v_BN_W (command s)] \<and>
         gamma_history (command (stepTime E dto s))
           = gamma_history (command s) @ [cmd_gamma (command s)] \<and>
         sigma_history (command (stepTime E dto s))
           = sigma_history (command s) @ [cmd_sigma (command s)] \<and>
         airspeed_history (command (stepTime E dto s))
           = airspeed_history (command s) @ [cmd_airspeed (command s)] \<and>
         time (stepTime E dto s)
           = time s @ [last (time s) + (case dto of None \<Rightarrow> dt s | Some x \<Rightarrow> x)] \<and>
         (finite_command s \<longrightarrow>
            length (Thrust (stepTime E dto s)) = Suc (length (Thrust s)) \<and>
            V_err (stepTime E dto s) = Num (num (cmd_v_BN_W (command s)) - last (v_BN_W s)) \<and>
            hdot_err (stepTime E dto s)
              = Num (num (cmd_v_BN_W (command s))
                        * (sin (num (cmd_gamma (command s))) - sin (last (gamma s)))) \<and>
            sigma_err (stepTime E dto s)
              = Num (num (cmd_sigma (command s)) - last (sigma s)) \<and>
            h_c (stepTime E dto s)
              = h_c s @ [sin (num (cmd_gamma (command s))) * num (cmd_v_BN_W (command s))
                           * (last (time s) + (case dto of None \<Rightarrow> dt s | Some x \<Rightarrow> x))
                         + hd (h s)])"
proof -
  have eq: "stepTime E dto s =
           (getEquationsOfMotion_Ideal E (Some (case dto of None \<Rightarrow> dt s | Some x \<Rightarrow> x))
              (getGuidanceCommands E (Some (case dto of None \<Rightarrow> dt s | Some x \<Rightarrow> x)) s))
           \<lparr>command := save_history (command s),
             time := time s @ [last (time s) + (case dto of None \<Rightarrow> dt s | Some x \<Rightarrow> x)]\<rparr>"
    by (simp add: stepTime_eq eom_frame guidance_frame)
  have hist: "v_BN_W_history (command (stepTime E dto s))
           = v_BN_W_history (command s) @ [cmd_v_BN_W (command s)]"
    "gamma_history (command (stepTime E dto s))
           = gamma_history (command s) @ [cmd_gamma (command s)]"
    "sigma_history (command (stepTime E dto s))
           = sigma_history (command s) @ [cmd_sigma (command s)]"
    "airspeed_history (command (stepTime E dto s))
           = airspeed_history (command s) @ [cmd_airspeed (command s)]"
    by (simp_all add: step_command save_history_def)
  have fin: "length (Thrust (stepTime E dto s)) = Suc (length (Thrust s)) \<and>
            V_err (stepTime E dto s) = Num (num (cmd_v_BN_W (command s)) - last (v_BN_W s)) \<and>
            hdot_err (stepTime E dto s)
              = Num (num (cmd_v_BN_W (command s))
                        * (sin (num (cmd_gamma (command s))) - sin (last (gamma s)))) \<and>
            sigma_err (stepTime E dto s)
              = Num (num (cmd_sigma (command s)) - last (sigma s)) \<and>
            h_c (stepTime E dto s)
              = h_c s @ [sin (num (cmd_gamma (command s))) * num (cmd_v_BN_W (command s))
                           * (last (time s) + (case dto of None \<Rightarrow> dt s | Some x \<Rightarrow> x))
                         + hd (h s)]"
    if f: "finite_command s"
    by (simp add: step_guidance_fields guidance_errors[OF f] guidance_lengths[OF f])
  show ?thesis
    using eq hist fin step_mass[of E dto s] step_time[of E dto s] by blast
qed

theorem C9_witness:
  "histories_nonempty slowed \<and> finite_command slowed \<and>
   V_err (stepTime utils0 None slowed) = Num (- (260/3)) \<and>
   hdot_err (stepTime utils0 None slowed) = Num 0 \<and>
   sigma_err (stepTime utils0 None slowed) = Num 0 \<and>
   mass (stepTime utils0 None slowed)
     = [9375, 9375 + 9655560049638737 / 187500000000000000000] \<and>
   time (stepTime utils0 None slowed) = [0, 1/100]"
  using C9_step_order[OF slowed_nonempty, of utils0 None, THEN conjunct2]
  by (simp add: slowed_nonempty slowed_finite slowed_fields step_slowed_Thrust C130_fields
      utils0_fields exact_scalar[OF rk45_exact[OF covers_one_step]])

subsection \<open>Frozen right-hand sides\<close>

lemma eom_ode_eq:
  "eom_ode E s =
     (\<lambda>t y. [((last (Thrust s) - last (drag s)) / last (mass s))
                - const_gravity E * sin (last (gamma s)),
              (1 / last (v_BN_W s))
                * ((last (Lift s) * cos (last (mu s)) / last (mass s))
                   - const_gravity E * cos (last (gamma s))),
              (1 / (last (v_BN_W s) * cos (last (gamma s))))
                * (last (Lift s) * sin (last (mu s)) / last (mass s))])"
  by (simp add: fun_eq_iff eom_ode_def)

lemma ecef_ode_eq:
  "ecef_ode E s =
     (\<lambda>t y. [last (v_BN_W s) * cos (last (gamma s)) * cos (last (sigma s))
                / (Re_bar E + last (h s)),
              last (v_BN_W s) * cos (last (gamma s)) * sin (last (sigma s))
                / ((Re_bar E + last (h s)) * cos (last (lat s))),
              last (v_BN_W s) * sin (last (gamma s))])"
  by (simp add: fun_eq_iff ecef_ode_def)

lemma eom_values:
  fixes E :: env and s :: guidance and dto :: "real option"
  assumes ex: "exact_on_constant (solve_ivp E)"
  defines "d \<equiv> (case dto of None \<Rightarrow> dt s | Some x \<Rightarrow> x)"
  defines "s' \<equiv> getEquationsOfMotion_Ideal E dto s"
  shows "last (mass s') = last (mass s) + (- 1 * Kf (Vehicle s) * last (Thrust s)) * d"
    and "last (v_BN_W s')
           = last (v_BN_W s)
             + (((last (Thrust s) - last (drag s')) / last (mass s'))
                 - const_gravity E * sin (last (gamma s))) * d"
    and "last (gamma s')
           = last (gamma s)
             + ((1 / last (v_BN_W s))
                 * ((last (Lift s) * cos (last (mu s)) / last (mass s'))
                    - const_gravity E * cos (last (gamma s)))) * d"
    and "last (sigma s')
           = last (sigma s)
             + ((1 / (last (v_BN_W s) * cos (last (gamma s))))
                 * (last (Lift s) * sin (last (mu s)) / last (mass s'))) * d"
    and "last (lat s')
           = last (lat s)
             + (last (v_BN_W s') * cos (last (gamma s')) * cos (last (sigma s'))
                 / (Re_bar E + last (h s))) * d"
    and "last (lon s')
           = last (lon s)
             + (last (v_BN_W s') * cos (last (gamma s')) * sin (last (sigma s'))
                 / ((Re_bar E + last (h s)) * cos (last (lat s)))) * d"
    and "last (h s') = last (h s) + (last (v_BN_W s') * sin (last (gamma s'))) * d"
proof -
  have "last (mass s') = last (mass s) + (- 1 * Kf (Vehicle s) * last (Thrust s)) * d \<and>
    last (v_BN_W s')
           = last (v_BN_W s)
             + (((last (Thrust s) - last (drag s')) / last (mass s'))
                 - const_gravity E * sin (last (gamma s))) * d \<and>
    last (gamma s')
           = last (gamma s)
             + ((1 / last (v_BN_W s))
                 * ((last (Lift s) * cos (last (mu s)) / last (mass s'))
                    - const_gravity E * cos (last (gamma s)))) * d \<and>
    last (sigma s')
           = last (sigma s)
             + ((1 / (last (v_BN_W s) * cos (last (gamma s))))
                 * (last (Lift s) * sin (last (mu s)) / last (mass s'))) * d \<and>
    last (lat s')
           = last (lat s)
             + (last (v_BN_W s') * cos (last (gamma s')) * cos (last (sigma s'))
                 / (Re_bar E + last (h s))) * d \<and>
    last (lon s')
           = last (lon s)
             + (last (v_BN_W s') * cos (last (gamma s')) * sin (last (sigma s'))
                 / ((Re_bar E + last (h s)) * cos (last (lat s)))) * d \<and>
    last (h s') = last (h s) + (last (v_BN_W s') * sin (last (gamma s'))) * d"
  proof (rule eom_cases[where s=s and E=E and dto=dto], goal_cases)
    case (1 d0 m' sol2 sol3 s3 s7)
    have d0: "d0 = d" by (simp add: 1(1) d_def)
    have m': "m' = last (mass s) + d * (- 1 * Kf (Vehicle s) * last (Thrust s))"
      unfolding 1(2) d0 by (simp add: exact_scalar[OF ex])
    have s3: "last (Thrust s3) = last (Thrust s)" "last (drag s3) = calculateDrag E s"
      "last (mass s3) = m'" "last (gamma s3) = last (gamma s)"
      "last (v_BN_W s3) = last (v_BN_W s)" "last (Lift s3) = last (Lift s)"
      "last (mu s3) = last (mu s)"
      by (simp_all add: 1(3))
    have sol2: "sol2 =
       [last (v_BN_W s)
          + d * (((last (Thrust s) - calculateDrag E s) / m')
                   - const_gravity E * sin (last (gamma s))),
        last (gamma s)
          + d * ((1 / last (v_BN_W s))
                   * ((last (Lift s) * cos (last (mu s)) / m')
                      - const_gravity E * cos (last (gamma s)))),
        last (sigma s)
          + d * ((1 / (last (v_BN_W s) * cos (last (gamma s))))
                   * (last (Lift s) * sin (last (mu s)) / m'))]"
      unfolding 1(4) d0 eom_ode_eq s3 by (simp add: exact_triple[OF ex])
    have s7: "last (v_BN_W s7) = sol2 ! 0" "last (gamma s7) = sol2 ! 1"
      "last (sigma s7) = sol2 ! 2" "last (h s7) = last (h s)" "last (lat s7) = last (lat s)"
      by (simp_all add: 1(5) 1(3))
    have sol3: "sol3 =
       [last (lat s)
          + d * (sol2 ! 0 * cos (sol2 ! 1) * cos (sol2 ! 2) / (Re_bar E + last (h s))),
        last (lon s)
          + d * (sol2 ! 0 * cos (sol2 ! 1) * sin (sol2 ! 2)
                   / ((Re_bar E + last (h s)) * cos (last (lat s)))),
        last (h s) + d * (sol2 ! 0 * sin (sol2 ! 1))]"
      unfolding 1(6) d0 ecef_ode_eq s7 by (simp add: exact_triple[OF ex])
    have f: "last (mass s') = m'" "last (drag s') = calculateDrag E s"
      "last (v_BN_W s') = sol2 ! 0" "last (gamma s') = sol2 ! 1" "last (sigma s') = sol2 ! 2"
      "last (lat s') = sol3 ! 0" "last (lon s') = sol3 ! 1" "last (h s') = sol3 ! 2"
      unfolding s'_def 1(7) by (simp_all add: 1(5) 1(3))
    have n2: "sol2 ! 0 = last (v_BN_W s)
          + (((last (Thrust s) - calculateDrag E s) / m')
                   - const_gravity E * sin (last (gamma s))) * d"
      "sol2 ! 1 = last (gamma s)
          + ((1 / last (v_BN_W s))
                   * ((last (Lift s) * cos (last (mu s)) / m')
                      - const_gravity E * cos (last (gamma s)))) * d"
      "sol2 ! 2 = last (sigma s)
          + ((1 / (last (v_BN_W s) * cos (last (gamma s))))
                   * (last (Lift s) * sin (last (mu s)) / m')) * d"
      by (simp_all add: sol2 mult.commute)
    have n3: "sol3 ! 0 = last (lat s)
          + (sol2 ! 0 * cos (sol2 ! 1) * cos (sol2 ! 2) / (Re_bar E + last (h s))) * d"
      "sol3 ! 1 = last (lon s)
          + (sol2 ! 0 * cos (sol2 ! 1) * sin (sol2 ! 2)
                   / ((Re_bar E + last (h s)) * cos (last (lat s)))) * d"
      "sol3 ! 2 = last (h s) + (sol2 ! 0 * sin (sol2 ! 1)) * d"
      by (subst sol3, simp add: mult.commute)+
    have m'2: "m' = last (mass s) + (- 1 * Kf (Vehicle s) * last (Thrust s)) * d"
      by (simp add: m' mult.commute)
    show ?case
      unfolding f using n2 n3 m'2 by blast
  qed
  then show "last (mass s') = last (mass s) + (- 1 * Kf (Vehicle s) * last (Thrust s)) * d"
    and "last (v_BN_W s')
           = last (v_BN_W s)
             + (((last (Thrust s) - last (drag s')) / last (mass s'))
                 - const_gravity E * sin (last (gamma s))) * d"
    and "last (gamma s')
           = last (gamma s)
             + ((1 / last (v_BN_W s))
                 * ((last (Lift s) * cos (last (mu s)) / last (mass s'))
                    - const_gravity E * cos (last (gamma s)))) * d"
    and "last (sigma s')
           = last (sigma s)
             + ((1 / (last (v_BN_W s) * cos (last (gamma s))))
                 * (last (Lift s) * sin (last (mu s)) / last (mass s'))) * d"
    and "last (lat s')
           = last (lat s)
             + (last (v_BN_W s') * cos (last (gamma s')) * cos (last (sigma s'))
                 / (Re_bar E + last (h s))) * d"
    and "last (lon s')
           = last (lon s)
             + (last (v_BN_W s') * cos (last (gamma s')) * sin (last (sigma s'))
                 / ((Re_bar E + last (h s)) * cos (last (lat s)))) * d"
    and "last (h s') = last (h s) + (last (v_BN_W s') * sin (last (gamma s'))) * d"
    by blast+
qed

text \<open>
  C3, as stated, fails for the two lag filters: their right-hand sides read the integration
  variable (dT/dt = -omega_T * T + omega_T * Tc), so the Runge-Kutta integration of the thrust
  is not the single extrapolation step from the committed thrust.
\<close>

theorem C3_counterexample:
  "T_dot_ode (thrustGuidanceSystem utils0 (1/100) slowed) 0 [0]
     \<noteq> T_dot_ode (thrustGuidanceSystem utils0 (1/100) slowed) 0 [1] \<and>
   last (Thrust (thrustGuidanceSystem utils0 (1/100) slowed))
     \<noteq> last (Thrust slowed)
         + hd (T_dot_ode (thrustGuidanceSystem utils0 (1/100) slowed) 0 [last (Thrust slowed)])
           * (1/100)"
proof -
  have ve: "V_err (thrustGuidanceSystem utils0 (1/100) slowed) = Num (- (260/3))"
    by (simp add: thrust_values(1) slowed_fields lift2_def)
  have tc: "Tc (thrustGuidanceSystem utils0 (1/100) slowed) = - (260065/4)"
    by (simp add: thrust_values(3)[of utils0 "1/100" slowed] ve slowed_thrust_xT slowed_fields
        C130_fields)
  show ?thesis
    by (simp add: T_dot_ode_def thrust_frame slowed_fields C130_fields tc slowed_thrust)
qed

text \<open>
  C3, amended: the right-hand sides of the two integral memories, of the fuel burn, of the
  translational/attitude dynamics and of the geodetic kinematics read only committed state
  values, never the time or the integration variable. So the adaptive Runge-Kutta
  integration of each over [t, t+dt] (whatever step sizes the controller picks, as long as
  they add up to dt) equals the single extrapolation step y(t+dt) = y(t) + f * dt; in
  particular xT(t+dt) = xT(t) + mass * V_err * dt and xL(t+dt) = xL(t) + mass * hdot_err * dt.
  The dynamics read the mass and drag just appended in the same step, and the kinematics
  the velocity, flight-path angle and heading just appended. The two lag filters are not
  covered. The error terms are those of numeric commanded values, the velocity error
  commanded velocity - last velocity and the climb-rate error commanded velocity *
  (sin(commanded gamma) - sin(last gamma)).
\<close>

theorem C3_frozen_extrapolation:
  assumes "solve_ivp E = rk45_solve ctrl" and "covers ctrl" and "histories_nonempty s"
    and "finite_command s"
  shows "xT_dot_ode s t y = xT_dot_ode s t' y' \<and>
         xL_dot_ode s t y = xL_dot_ode s t' y' \<and>
         m_dot_ode s t y = m_dot_ode s t' y' \<and>
         eom_ode E s t y = eom_ode E s t' y' \<and>
         ecef_ode E s t y = ecef_ode E s t' y' \<and>
         V_err (thrustGuidanceSystem E d s)
           = Num (num (cmd_v_BN_W (command s)) - last (v_BN_W s)) \<and>
         xT (thrustGuidanceSystem E d s)
           = xT s + last (mass s) * (num (cmd_v_BN_W (command s)) - last (v_BN_W s)) * d \<and>
         hdot_err (liftGuidanceSystem E d s)
           = Num (num (cmd_v_BN_W (command s))
                    * (sin (num (cmd_gamma (command s))) - sin (last (gamma s)))) \<and>
         xL (liftGuidanceSystem E d s)
           = xL s
             + last (mass s)
               * (num (cmd_v_BN_W (command s))
                    * (sin (num (cmd_gamma (command s))) - sin (last (gamma s)))) * d \<and>
         last (mass (getEquationsOfMotion_Ideal E dto s))
           = last (mass s)
             + (- 1 * Kf (Vehicle s) * last (Thrust s))
               * (case dto of None \<Rightarrow> dt s | Some x \<Rightarrow> x) \<and>
         last (v_BN_W (getEquationsOfMotion_Ideal E dto s))
           = last (v_BN_W s)
             + (((last (Thrust s) - last (drag (getEquationsOfMotion_Ideal E dto s)))
                   / last (mass (getEquationsOfMotion_Ideal E dto s)))
                 - const_gravity E * sin (last (gamma s)))
               * (case dto of None \<Rightarrow> dt s | Some x \<Rightarrow> x) \<and>
         last (gamma (getEquationsOfMotion_Ideal E dto s))
           = last (gamma s)
             + ((1 / last (v_BN_W s))
                 * ((last (Lift s) * cos (last (mu s))
                       / last (mass (getEquationsOfMotion_Ideal E dto s)))
                    - const_gravity E * cos (last (gamma s))))
               * (case dto of None \<Rightarrow> dt s | Some x \<Rightarrow> x) \<and>
         last (sigma (getEquationsOfMotion_Ideal E dto s))
           = last (sigma s)
             + ((1 / (last (v_BN_W s) * cos (last (gamma s))))
                 * (last (Lift s) * sin (last (mu s))
                      / last (mass (getEquationsOfMotion_Ideal E dto s))))
               * (case dto of None \<Rightarrow> dt s | Some x \<Rightarrow> x) \<and>
         last (lat (getEquationsOfMotion_Ideal E dto s))
           = last (lat s)
             + (last (v_BN_W (getEquationsOfMotion_Ideal E dto s))
                  * cos (last (gamma (getEquationsOfMotion_Ideal E dto s)))
                  * cos (last (sigma (getEquationsOfMotion_Ideal E dto s)))
                 / (Re_bar E + last (h s)))
               * (case dto of None \<Rightarrow> dt s | Some x \<Rightarrow> x) \<and>
         last (lon (getEquationsOfMotion_Ideal E dto s))
           = last (lon s)
             + (last (v_BN_W (getEquationsOfMotion_Ideal E dto s))
                  * cos (last (gamma (getEquationsOfMotion_Ideal E dto s)))
                  * sin (last (sigma (getEquationsOfMotion_Ideal E dto s)))
                 / ((Re_bar E + last (h s)) * cos (last (lat s))))
               * (case dto of None \<Rightarrow> dt s | Some x \<Rightarrow> x) \<and>
         last (h (getEquationsOfMotion_Ideal E dto s))
           = last (h s)
             + (last (v_BN_W (getEquationsOfMotion_Ideal E dto s))
                  * sin (last (gamma (getEquationsOfMotion_Ideal E dto s))))
               * (case dto of None \<Rightarrow> dt s | Some x \<Rightarrow> x)"
proof -
  have ex: "exact_on_constant (solve_ivp E)"
    unfolding assms(1) by (rule rk45_exact[OF assms(2)])
  have rhs: "xT_dot_ode s t y = xT_dot_ode s t' y'" "xL_dot_ode s t y = xL_dot_ode s t' y'"
    "m_dot_ode s t y = m_dot_ode s t' y'" "eom_ode E s t y = eom_ode E s t' y'"
    "ecef_ode E s t y = ecef_ode E s t' y'"
    by (simp_all add: xT_dot_ode_def xL_dot_ode_def m_dot_ode_def eom_ode_def ecef_ode_def)
  have ve: "V_err (thrustGuidanceSystem E d s)
           = Num (num (cmd_v_BN_W (command s)) - last (v_BN_W s))"
    using assms(4) by (simp add: thrust_values(1) finite_the)
  have xT: "xT (thrustGuidanceSystem E d s)
           = xT s + last (mass s) * (num (cmd_v_BN_W (command s)) - last (v_BN_W s)) * d"
    by (subst thrust_values(2)) (simp add: ve exact_scalar[OF ex] mult.commute)
  have he: "hdot_err (liftGuidanceSystem E d s)
           = Num (num (cmd_v_BN_W (command s))
                    * (sin (num (cmd_gamma (command s))) - sin (last (gamma s))))"
    using assms(4) by (simp add: lift_values(1) finite_the)
  have xL: "xL (liftGuidanceSystem E d s)
           = xL s
             + last (mass s)
               * (num (cmd_v_BN_W (command s))
                    * (sin (num (cmd_gamma (command s))) - sin (last (gamma s)))) * d"
    by (subst lift_values(2)) (simp add: he exact_scalar[OF ex] mult.commute)
  show ?thesis
    using rhs ve xT he xL eom_values[OF ex, of dto s] by blast
qed

theorem C3_witness:
  "solve_ivp utils0 = rk45_solve one_step \<and> covers one_step \<and> histories_nonempty slowed \<and>
   finite_command slowed \<and>
   xT (thrustGuidanceSystem utils0 (1/100) slowed) = - 8125 \<and>
   last (mass (getEquationsOfMotion_Ideal utils0 None slowed)) = 9375"
  using C3_frozen_extrapolation[OF utils0_fields(2) covers_one_step slowed_nonempty
      slowed_finite, of 0 "[]" 0 "[]" "1/100" None]
  by (simp add: utils0_fields covers_one_step slowed_nonempty slowed_finite slowed_fields)

subsection \<open>Fuel burn\<close>

lemma sorted_ge_last:
  fixes xs :: "real list"
  shows "sorted_wrt (\<ge>) xs \<Longrightarrow> x \<in> set xs \<Longrightarrow> last xs \<le> x"
proof (induction xs rule: rev_induct)
  case Nil
  then show ?case by simp
next
  case (snoc a xs)
  then show ?case by (auto simp: sorted_wrt_append)
qed

lemma sorted_ge_snoc:
  fixes xs :: "real list"
  assumes "sorted_wrt (\<ge>) xs" and "xs \<noteq> []" and "y \<le> last xs"
  shows "sorted_wrt (\<ge>) (xs @ [y])"
  using assms sorted_ge_last[OF assms(1)] by (fastforce simp: sorted_wrt_append)

lemma step_Thrust_prefix:
  fixes E :: env and s :: guidance and dto :: "real option"
  shows "set (Thrust s) \<subseteq> set (Thrust (stepTime E dto s))"
proof (cases "np_nan_commanded s")
  case False
  define d where "d = (case dto of None \<Rightarrow> dt s | Some x \<Rightarrow> x)"
  obtain th where
    "Thrust (getGuidanceCommands E (Some d) s)
       = Thrust s @ [if th > T_max (Vehicle s) then T_max (Vehicle s) else th]"
    using guidance_outputs_runs[OF False, of E "Some d"] by blast
  then have "set (Thrust s) \<subseteq> set (Thrust (getGuidanceCommands E (Some d) s))"
    by auto
  then show ?thesis
    by (simp add: step_guidance_fields flip: d_def)
next
  case True
  then show ?thesis
    by (simp add: step_guidance_fields guidance_nan)
qed

lemma step_Thrust_nonempty:
  fixes E :: env and s :: guidance and dto :: "real option"
  shows "Thrust s \<noteq> [] \<Longrightarrow> Thrust (stepTime E dto s) \<noteq> []"
  using step_Thrust_prefix[of s E dto] by auto

lemma step_Vehicle_dt:
  fixes E :: env and s :: guidance and dto :: "real option"
  shows "Vehicle (stepTime E dto s) = Vehicle s" "dt (stepTime E dto s) = dt s"
  by (simp_all add: step_guidance_fields guidance_frame)

lemma step_mass_sorted:
  fixes E :: env and s :: guidance and dto :: "real option"
  assumes ex: "exact_on_constant (solve_ivp E)"
    and kf: "0 \<le> Kf (Vehicle s)"
    and pos: "0 < (case dto of None \<Rightarrow> dt s | Some x \<Rightarrow> x)"
    and ne: "mass s \<noteq> []"
    and thr: "0 \<le> last (Thrust (stepTime E dto s))"
    and srt: "sorted_wrt (\<ge>) (mass s)"
  shows "sorted_wrt (\<ge>) (mass (stepTime E dto s))"
proof -
  define d where "d = (case dto of None \<Rightarrow> dt s | Some x \<Rightarrow> x)"
  define T where "T = last (Thrust (stepTime E dto s))"
  have m: "mass (stepTime E dto s) = mass s @ [last (mass s) + d * (- 1 * Kf (Vehicle s) * T)]"
    by (subst step_mass) (simp add: exact_scalar[OF ex] d_def T_def)
  have "0 \<le> d * (Kf (Vehicle s) * T)"
    using kf pos thr unfolding d_def T_def by (intro mult_nonneg_nonneg) simp_all
  then have "last (mass s) + d * (- 1 * Kf (Vehicle s) * T) \<le> last (mass s)"
    by simp
  then show ?thesis
    unfolding m by (rule sorted_ge_snoc[OF srt ne])
qed

lemma apply_keeps:
  fixes E :: env and s :: guidance
  assumes "Vehicle s = V" and "dt s = d" and "mass s \<noteq> []" and "Thrust s \<noteq> []"
  shows "Vehicle (apply_action E a s) = V \<and> dt (apply_action E a s) = d \<and>
         mass (apply_action E a s) \<noteq> [] \<and> Thrust (apply_action E a s) \<noteq> []"
proof (cases a)
  case (SetCommand v g sg)
  then show ?thesis
    using assms by (simp add: set_effect)
next
  case (Step dto)
  have "length (mass (stepTime E dto s)) = Suc (length (mass s))"
    by (rule step_eom_lengths(1))
  then have "mass (stepTime E dto s) \<noteq> []"
    by auto
  then show ?thesis
    using assms Step by (simp add: step_Vehicle_dt step_Thrust_nonempty)
qed

lemma run_keeps:
  fixes E :: env and s :: guidance
  shows "Vehicle s = V \<Longrightarrow> dt s = d \<Longrightarrow> mass s \<noteq> [] \<Longrightarrow> Thrust s \<noteq> [] \<Longrightarrow>
         Vehicle (run E as s) = V \<and> dt (run E as s) = d \<and>
         mass (run E as s) \<noteq> [] \<and> Thrust (run E as s) \<noteq> []"
proof (induction as arbitrary: s)
  case Nil
  then show ?case by simp
next
  case (Cons a as)
  show ?case
    using Cons.IH[of "apply_action E a s"] apply_keeps[OF Cons.prems, of E a] by simp
qed

lemma run_mass_sorted:
  fixes E :: env and s0 :: guidance
  assumes ex: "exact_on_constant (solve_ivp E)"
    and inv: "Vehicle s0 = V" "dt s0 = d" "mass s0 \<noteq> []" "Thrust s0 \<noteq> []"
    and kf: "0 \<le> Kf V"
    and srt: "sorted_wrt (\<ge>) (mass s0)"
  shows "list_all (positive_step d) as \<Longrightarrow>
         list_all (\<lambda>x. 0 \<le> x) (Thrust (run E as s0)) \<Longrightarrow>
         sorted_wrt (\<ge>) (mass (run E as s0))"
proof (induction as rule: rev_induct)
  case Nil
  then show ?case using srt by simp
next
  case (snoc a as)
  define s where "s = run E as s0"
  have keeps: "Vehicle s = V" "dt s = d" "mass s \<noteq> []" "Thrust s \<noteq> []"
    using run_keeps[OF inv, of E as] by (simp_all add: s_def)
  have r: "run E (as @ [b]) s0 = apply_action E b s" for b
    by (simp add: run_append s_def)
  have steps: "list_all (positive_step d) as" and a: "positive_step d a"
    using snoc.prems(1) by simp_all
  show ?case
  proof (cases a)
    case (SetCommand v g sg)
    then have same: "Thrust (run E (as @ [a]) s0) = Thrust s"
      "mass (run E (as @ [a]) s0) = mass s"
      by (simp_all add: r set_effect)
    have "list_all (\<lambda>x. 0 \<le> x) (Thrust (run E as s0))"
      using snoc.prems(2) by (simp add: same s_def)
    then show ?thesis
      using snoc.IH[OF steps] by (simp add: same s_def)
  next
    case (Step dto)
    have r': "run E (as @ [a]) s0 = stepTime E dto s"
      by (simp add: r Step)
    have all: "list_all (\<lambda>x. 0 \<le> x) (Thrust (stepTime E dto s))"
      using snoc.prems(2) by (simp add: r')
    then have "list_all (\<lambda>x. 0 \<le> x) (Thrust s)"
      using step_Thrust_prefix[of s E dto] by (auto simp: list_all_iff)
    then have srt': "sorted_wrt (\<ge>) (mass s)"
      using snoc.IH[OF steps] by (simp add: s_def)
    have "last (Thrust (stepTime E dto s)) \<in> set (Thrust (stepTime E dto s))"
      using step_Thrust_nonempty[OF keeps(4), of E dto] by simp
    then have thr: "0 \<le> last (Thrust (stepTime E dto s))"
      using all by (simp add: list_all_iff)
    have pos: "0 < (case dto of None \<Rightarrow> dt s | Some x \<Rightarrow> x)"
      using a Step keeps(2) by (cases dto) simp_all
    have kf': "0 \<le> Kf (Vehicle s)"
      using kf by (simp add: keeps(1))
    show ?thesis
      unfolding r'
      by (rule step_mass_sorted[OF ex kf' pos keeps(3) thr srt'])
  qed
qed

lemma run_step_mass:
  fixes E :: env
  assumes ex: "exact_on_constant (solve_ivp E)"
  shows "mass (run E (as @ [Step dto]) (create E V TF IC t0 d))
           = mass (run E as (create E V TF IC t0 d)) @
             [last (mass (run E as (create E V TF IC t0 d)))
                - Kf V * last (Thrust (run E (as @ [Step dto]) (create E V TF IC t0 d)))
                  * (case dto of None \<Rightarrow> d | Some x \<Rightarrow> x)]"
proof -
  define s where "s = run E as (create E V TF IC t0 d)"
  have keeps: "Vehicle s = V" "dt s = d"
    using run_keeps[of "create E V TF IC t0 d" V d E as]
    by (simp_all add: s_def create_fields)
  have r: "run E (as @ [Step dto]) (create E V TF IC t0 d) = stepTime E dto s"
    by (simp add: run_append s_def)
  have d: "(case dto of None \<Rightarrow> dt s | Some x \<Rightarrow> x) = (case dto of None \<Rightarrow> d | Some x \<Rightarrow> x)"
    using keeps(2) by (cases dto) simp_all
  have "mass (stepTime E dto s)
          = mass s @ [last (mass s)
                        - Kf V * last (Thrust (stepTime E dto s))
                          * (case dto of None \<Rightarrow> d | Some x \<Rightarrow> x)]"
    by (subst step_mass) (simp add: exact_scalar[OF ex] keeps(1) d mult.commute)
  then show ?thesis
    unfolding r s_def .
qed

text \<open>
  C7: the mass changes only by the fuel-burn law dmass/dt = -Kf * Thrust: the right-hand
  side of the mass equation is -Kf * (last thrust); in a run from construction a command
  leaves the mass history as it is, and a step appends exactly one mass, the last mass minus
  Kf * Thrust * dt with the thrust this step's guidance left (for a solver that is exact on
  a constant right-hand side, as the Runge-Kutta integrator is). So with Kf >= 0 and every
  step size positive, a run whose thrust history has no negative entry has a non-increasing
  mass history: the mass after each step is at most the mass before it.
\<close>

theorem C7_mass_non_increasing:
  assumes "exact_on_constant (solve_ivp E)"
  shows "m_dot_ode s t y = [- (Kf (Vehicle s) * last (Thrust s))] \<and>
         mass (run E (as @ [SetCommand v g sg]) (create E V TF IC t0 d))
           = mass (run E as (create E V TF IC t0 d)) \<and>
         mass (run E (as @ [Step dto]) (create E V TF IC t0 d))
           = mass (run E as (create E V TF IC t0 d)) @
             [last (mass (run E as (create E V TF IC t0 d)))
                - Kf V * last (Thrust (run E (as @ [Step dto]) (create E V TF IC t0 d)))
                  * (case dto of None \<Rightarrow> d | Some x \<Rightarrow> x)] \<and>
         (0 \<le> Kf V \<longrightarrow>
          list_all (positive_step d) as \<longrightarrow>
          list_all (\<lambda>x. 0 \<le> x) (Thrust (run E as (create E V TF IC t0 d))) \<longrightarrow>
          sorted_wrt (\<ge>) (mass (run E as (create E V TF IC t0 d))))"
proof -
  have inv: "Vehicle (create E V TF IC t0 d) = V" "dt (create E V TF IC t0 d) = d"
    "mass (create E V TF IC t0 d) \<noteq> []" "Thrust (create E V TF IC t0 d) \<noteq> []"
    "sorted_wrt (\<ge>) (mass (create E V TF IC t0 d))"
    by (simp_all add: create_fields)
  have law: "m_dot_ode s t y = [- (Kf (Vehicle s) * last (Thrust s))]"
    by (simp add: m_dot_ode_def)
  have cmd: "mass (run E (as @ [SetCommand v g sg]) (create E V TF IC t0 d))
           = mass (run E as (create E V TF IC t0 d))"
    by (simp add: run_append set_effect)
  have srt: "sorted_wrt (\<ge>) (mass (run E as (create E V TF IC t0 d)))"
    if "0 \<le> Kf V" and "list_all (positive_step d) as"
      and "list_all (\<lambda>x. 0 \<le> x) (Thrust (run E as (create E V TF IC t0 d)))"
    by (rule run_mass_sorted[OF assms inv(1-4) that(1) inv(5) that(2) that(3)])
  show ?thesis
    using law cmd run_step_mass[OF assms, of as dto V TF IC t0 d] srt by blast
qed

lemma sped_thrust:
  "Thrust (stepTime utils0 None (setCommandTrajectory utils0 (Num 660) (Num 0) (Num 0) fresh))
     = [0, 8170089272771239 / 7500000000000]"
proof -
  define s where "s = setCommandTrajectory utils0 (Num 660) (Num 0) (Num 0) fresh"
  have fin: "finite_command s"
    by (simp add: s_def set_finite)
  have f: "Vehicle s = C130" "K_Tp s = 8/100" "K_Ti s = 2/1000" "dt s = 1/100" "time s = [0]"
    "v_BN_W s = [1760/3]" "mass s = [9375]" "xT s = 0" "Thrust s = [0]"
    "cmd_v_BN_W (command s) = Num 660"
    by (simp_all add: s_def set_effect fresh_fields)
  have ve: "V_err (thrustGuidanceSystem utils0 (1/100) s) = Num (220/3)"
    by (simp add: thrust_values(1) f lift2_def)
  have x: "xT (thrustGuidanceSystem utils0 (1/100) s) = 6875"
    by (simp add: thrust_values(2)[of utils0 "1/100" s] ve f utils0_fields
        exact_scalar[OF rk45_exact[OF covers_one_step]])
  have tc: "Tc (thrustGuidanceSystem utils0 (1/100) s) = 220055/4"
    by (simp add: thrust_values(3)[of utils0 "1/100" s] ve x f C130_fields)
  have "rk45_solve one_step (\<lambda>t y. map (\<lambda>T. - 1 * 2 * T + 2 * (220055/4)) y) 0 (1/100) [0]
          = [8170089272771239 / 7500000000000]"
    by (simp add: rk45_solve_def one_step_def rk45_step_def rk_stage_def Let_def)
  then have "Thrust (thrustGuidanceSystem utils0 (1/100) s)
               = [0, 8170089272771239 / 7500000000000]"
    by (simp add: thrust_values(4)[of utils0 "1/100" s] tc f C130_fields utils0_fields)
  then show ?thesis
    using fin unfolding s_def[symmetric]
    by (simp add: step_guidance_fields guidance_finite heading_frame lift_frame f)
qed

theorem C7_witness:
  "exact_on_constant (solve_ivp utils0) \<and> 0 \<le> Kf C130 \<and>
   list_all (positive_step (1/100)) [SetCommand (Num 660) (Num 0) (Num 0), Step None] \<and>
   list_all (\<lambda>x. 0 \<le> x)
     (Thrust (run utils0 [SetCommand (Num 660) (Num 0) (Num 0), Step None] fresh)) \<and>
   mass (run utils0 [SetCommand (Num 660) (Num 0) (Num 0), Step None] fresh)
     = [9375, 9375 - 8170089272771239 / 187500000000000000000] \<and>
   sorted_wrt (\<ge>)
     (mass (run utils0 [SetCommand (Num 660) (Num 0) (Num 0), Step None] fresh))"
proof -
  have ex: "exact_on_constant (solve_ivp utils0)"
    by (simp add: utils0_fields rk45_exact[OF covers_one_step])
  have kf: "0 \<le> Kf C130"
    by (simp add: C130_fields)
  have steps: "list_all (positive_step (1/100))
                 [SetCommand (Num 660) (Num 0) (Num 0), Step None]"
    by simp
  have thr: "list_all (\<lambda>x. 0 \<le> x)
     (Thrust (run utils0 [SetCommand (Num 660) (Num 0) (Num 0), Step None]
                (create utils0 C130 TF0 init_cond 0 (1/100))))"
    using sped_thrust by (simp add: fresh_def)
  have m0: "mass (setCommandTrajectory utils0 (Num 660) (Num 0) (Num 0) fresh) = [9375]"
    by (simp add: set_effect fresh_fields)
  have m: "mass (run utils0 [SetCommand (Num 660) (Num 0) (Num 0), Step None] fresh)
     = [9375, 9375 - 8170089272771239 / 187500000000000000000]"
    using C7_mass_non_increasing[OF ex,
        where as="[SetCommand (Num 660) (Num 0) (Num 0)]" and dto=None and V=C130
          and TF=TF0 and IC=init_cond and ?t0.0=0 and d="1/100", THEN conjunct2, THEN conjunct2,
        THEN conjunct1]
      sped_thrust m0
    by (simp add: fresh_def C130_fields)
  have s: "sorted_wrt (\<ge>)
     (mass (run utils0 [SetCommand (Num 660) (Num 0) (Num 0), Step None] fresh))"
    using C7_mass_non_increasing[OF ex,
        where as="[SetCommand (Num 660) (Num 0) (Num 0), Step None]" and V=C130
          and TF=TF0 and IC=init_cond and ?t0.0=0 and d="1/100"] kf steps thr
    by (simp add: fresh_def)
  show ?thesis
    using ex kf steps thr m s by (simp add: fresh_def)
qed

end
